theory Spec2Isabelle
  imports Main
begin

section \<open>JavaScript values\<close>

text \<open>
  A JavaScript string is a sequence of UTF-16 code units; \<open>length\<close>, \<open>substring\<close>,
  \<open>split('')\<close> and regular expressions without the \<open>u\<close> flag all work on code units.
  A string is therefore a list of code units, each a natural number.
\<close>

type_synonym jsstring = "nat list"

definition js :: "string \<Rightarrow> jsstring" where
  "js s = map of_char s"

text \<open>
  \<open>String.prototype.trim\<close> removes ECMAScript white space and line terminators from
  both ends.
\<close>

definition isWhiteSpace :: "nat \<Rightarrow> bool" where
  "isWhiteSpace c =
     (c \<in> {9, 10, 11, 12, 13, 32, 160, 5760, 8232, 8233, 8239, 8287, 12288, 65279}
      \<or> (8192 \<le> c \<and> c \<le> 8202))"

definition dropTrailing :: "('a \<Rightarrow> bool) \<Rightarrow> 'a list \<Rightarrow> 'a list" where
  "dropTrailing P xs = rev (dropWhile P (rev xs))"

definition jsTrim :: "jsstring \<Rightarrow> jsstring" where
  "jsTrim s = dropTrailing isWhiteSpace (dropWhile isWhiteSpace s)"

definition startsWith :: "jsstring \<Rightarrow> jsstring \<Rightarrow> bool" where
  "startsWith s p = (take (length p) s = p)"

definition endsWith :: "jsstring \<Rightarrow> jsstring \<Rightarrow> bool" where
  "endsWith s p = (length p \<le> length s \<and> drop (length s - length p) s = p)"

fun jsIncludes :: "jsstring \<Rightarrow> jsstring \<Rightarrow> bool" where
  "jsIncludes [] p = (p = [])"
| "jsIncludes (c # cs) p = (startsWith (c # cs) p \<or> jsIncludes cs p)"

text \<open>
  The values the handlers receive and build: JSON values, plus \<open>undefined\<close> for an
  absent property.  Numbers only matter through their truthiness here.
\<close>

datatype json =
    JUndefined
  | JNull
  | JBool bool
  | JNum int
  | JStr jsstring
  | JArr "json list"
  | JObj "(jsstring \<times> json) list"

fun truthy :: "json \<Rightarrow> bool" where
  "truthy JUndefined = False"
| "truthy JNull = False"
| "truthy (JBool b) = b"
| "truthy (JNum n) = (n \<noteq> 0)"
| "truthy (JStr s) = (s \<noteq> [])"
| "truthy (JArr _) = True"
| "truthy (JObj _) = True"

fun nullish :: "json \<Rightarrow> bool" where
  "nullish JUndefined = True"
| "nullish JNull = True"
| "nullish _ = False"

text \<open>
  \<open>v?.k\<close>: the property \<open>k\<close> of \<open>v\<close>, \<open>undefined\<close> when \<open>v\<close> is nullish or has no such
  property.  None of the property names read by the server exists on the prototypes of
  strings, numbers, booleans or arrays.
\<close>

fun getProp :: "json \<Rightarrow> jsstring \<Rightarrow> json" where
  "getProp (JObj fs) k = (case map_of fs k of Some v \<Rightarrow> v | None \<Rightarrow> JUndefined)"
| "getProp _ k = JUndefined"

text \<open>\<open>a || b\<close>\<close>

definition orElse :: "json \<Rightarrow> json \<Rightarrow> json" where
  "orElse a b = (if truthy a then a else b)"

section \<open>Library functions of the platform\<close>

text \<open>
  The server calls library functions whose code is not part of the repository.  They are
  parameters of the model: every theorem below that quantifies over \<open>B\<close> holds for
  whatever these functions compute.
\<close>

record url =
  url_protocol :: jsstring
  url_hostname :: jsstring
  url_port :: jsstring
  url_pathname :: jsstring

record builtins =
  toLowerCase :: "jsstring \<Rightarrow> jsstring"
  jsonParse :: "jsstring \<Rightarrow> json option"
  jsonStringify :: "json \<Rightarrow> jsstring"
  jsonStringifyPretty :: "json \<Rightarrow> jsstring"
  toStringJS :: "json \<Rightarrow> jsstring"
  parseURL :: "jsstring \<Rightarrow> url option"
  base64 :: "jsstring \<Rightarrow> jsstring"
  pathJoin :: "jsstring \<Rightarrow> jsstring \<Rightarrow> jsstring"

section \<open>Branch names\<close>

definition isLowerAlnum :: "nat \<Rightarrow> bool" where
  "isLowerAlnum c = ((97 \<le> c \<and> c \<le> 122) \<or> (48 \<le> c \<and> c \<le> 57))"

text \<open>
  \<open>.replace(/[^a-z0-9]+/g, "-")\<close>: every maximal run of code units outside \<open>[a-z0-9]\<close>
  becomes one hyphen (code unit 45).  The flag says whether the scan is inside such a run.
\<close>

fun replaceRuns :: "bool \<Rightarrow> jsstring \<Rightarrow> jsstring" where
  "replaceRuns inRun [] = []"
| "replaceRuns inRun (c # cs) =
     (if isLowerAlnum c then c # replaceRuns False cs
      else if inRun then replaceRuns True cs
      else 45 # replaceRuns True cs)"

text \<open>\<open>.replace(/^-+|-+$/g, "")\<close>: leading and trailing hyphens are removed.\<close>

definition trimHyphens :: "jsstring \<Rightarrow> jsstring" where
  "trimHyphens s = dropTrailing (\<lambda>c. c = 45) (dropWhile (\<lambda>c. c = 45) s)"

text \<open>\<open>sanitizeBranchName\<close> of \<open>src/mcp-server.ts\<close> and of the Data Center revision.\<close>

definition sanitizeBranchName :: "builtins \<Rightarrow> jsstring \<Rightarrow> jsstring" where
  "sanitizeBranchName B name =
     take 100 (trimHyphens (replaceRuns False (toLowerCase B name)))"

text \<open>
  The revision with \<open>transliterateToEnglish\<close>.  A table entry whose value is the empty
  string is falsy, so \<open>transliterationMap[char] || char\<close> keeps the character.
\<close>

definition transliterationMap :: "(nat \<times> jsstring) list" where
  "transliterationMap =
    [(1072, js ''a''), (1073, js ''b''), (1074, js ''v''), (1075, js ''h''),
     (1169, js ''g''), (1076, js ''d''), (1077, js ''e''), (1108, js ''ie''),
     (1078, js ''zh''), (1079, js ''z''), (1080, js ''y''), (1110, js ''i''),
     (1111, js ''i''), (1081, js ''i''), (1082, js ''k''), (1083, js ''l''),
     (1084, js ''m''), (1085, js ''n''), (1086, js ''o''), (1087, js ''p''),
     (1088, js ''r''), (1089, js ''s''), (1090, js ''t''), (1091, js ''u''),
     (1092, js ''f''), (1093, js ''kh''), (1094, js ''ts''), (1095, js ''ch''),
     (1096, js ''sh''), (1097, js ''shch''), (1100, js ''''), (1102, js ''iu''),
     (1103, js ''ia''),
     (1040, js ''A''), (1041, js ''B''), (1042, js ''V''), (1043, js ''H''),
     (1168, js ''G''), (1044, js ''D''), (1045, js ''E''), (1028, js ''IE''),
     (1046, js ''ZH''), (1047, js ''Z''), (1048, js ''Y''), (1030, js ''I''),
     (1031, js ''I''), (1049, js ''I''), (1050, js ''K''), (1051, js ''L''),
     (1052, js ''M''), (1053, js ''N''), (1054, js ''O''), (1055, js ''P''),
     (1056, js ''R''), (1057, js ''S''), (1058, js ''T''), (1059, js ''U''),
     (1060, js ''F''), (1061, js ''KH''), (1062, js ''TS''), (1063, js ''CH''),
     (1064, js ''SH''), (1065, js ''SHCH''), (1068, js ''''), (1070, js ''IU''),
     (1071, js ''IA''),
     (1099, js ''y''), (1101, js ''e''), (1098, js ''''), (1105, js ''e''),
     (1067, js ''Y''), (1069, js ''E''), (1066, js ''''), (1025, js ''E'')]"

definition transliterateChar :: "nat \<Rightarrow> jsstring" where
  "transliterateChar c =
     (case map_of transliterationMap c of
        Some s \<Rightarrow> if s \<noteq> [] then s else [c]
      | None \<Rightarrow> [c])"

definition transliterateToEnglish :: "jsstring \<Rightarrow> jsstring" where
  "transliterateToEnglish text = concat (map transliterateChar text)"

definition sanitizeBranchName_translit :: "builtins \<Rightarrow> jsstring \<Rightarrow> jsstring" where
  "sanitizeBranchName_translit B name =
     take 100 (trimHyphens (replaceRuns False (toLowerCase B (transliterateToEnglish name))))"

text \<open>
  The regular expression \<open>^[a-z0-9]+(-[a-z0-9]+)*$\<close> as its automaton: the flag says
  whether the previous code unit was in \<open>[a-z0-9]\<close>; a hyphen is accepted only after
  one, and the string must end after one.
\<close>

fun branchRe :: "bool \<Rightarrow> jsstring \<Rightarrow> bool" where
  "branchRe prev [] = prev"
| "branchRe prev (c # cs) =
     (if isLowerAlnum c then branchRe True cs
      else c = 45 \<and> prev \<and> branchRe False cs)"

definition matchesBranchRegex :: "jsstring \<Rightarrow> bool" where
  "matchesBranchRegex s = branchRe False s"

text \<open>
  An instance of \<open>toLowerCase\<close> for concrete inputs: it agrees with
  \<open>String.prototype.toLowerCase\<close> on Basic Latin and on the Cyrillic letters
  U+0400 to U+044F, U+0490 and U+0491, and leaves every other code unit alone.
\<close>

definition lowerUnit :: "nat \<Rightarrow> nat" where
  "lowerUnit c =
     (if 65 \<le> c \<and> c \<le> 90 then c + 32
      else if 1040 \<le> c \<and> c \<le> 1071 then c + 32
      else if 1024 \<le> c \<and> c \<le> 1039 then c + 80
      else if c = 1168 then 1169
      else c)"

definition lowerBasic :: "jsstring \<Rightarrow> jsstring" where
  "lowerBasic s = map lowerUnit s"

section \<open>Errors and effects\<close>

text \<open>
  An exception or a rejected promise is a value of \<open>exn\<close>.  Every external call (a
  \<open>git\<close> command, an HTTPS request, a request to the remote tool server) is appended to
  a trace, and its outcome is given by an oracle that may depend on everything that
  happened before, so that each call can succeed or fail independently of the others.
  The working directory and the existence of a path are read from the world without
  failure: \<open>process.cwd()\<close> is taken to return the directory, as \<open>existsSync\<close> always
  returns.
\<close>

datatype exn =
    Error jsstring
  | TypeError
  | SyntaxError
  | HttpError "nat option" jsstring
  | Rejected nat

record request =
  hostname :: jsstring  port :: json
  path :: jsstring  httpMethod :: jsstring
  headers :: "(jsstring \<times> jsstring) list"

datatype event =
    Exec jsstring jsstring
  | Https request "jsstring option"
  | ToolsCall jsstring json

record world =
  cwd :: jsstring
  existsSync :: "jsstring \<Rightarrow> bool"
  execResult :: "event list \<Rightarrow> jsstring \<Rightarrow> exn + jsstring"
  httpsResponse :: "event list \<Rightarrow> request \<Rightarrow> jsstring option \<Rightarrow> exn + (nat option \<times> jsstring)"
  clientResult :: "event list \<Rightarrow> jsstring \<Rightarrow> json \<Rightarrow> exn + json"

type_synonym 'a io = "event list \<Rightarrow> (exn + 'a) \<times> event list"

definition ret :: "'a \<Rightarrow> 'a io" where
  "ret v = (\<lambda>tr. (Inr v, tr))"

definition throw :: "exn \<Rightarrow> 'a io" where
  "throw e = (\<lambda>tr. (Inl e, tr))"

definition lift :: "exn + 'a \<Rightarrow> 'a io" where
  "lift r = (\<lambda>tr. (r, tr))"

definition andThen :: "'a io \<Rightarrow> ('a \<Rightarrow> 'b io) \<Rightarrow> 'b io" where
  "andThen m f = (\<lambda>tr. case m tr of (Inl e, tr') \<Rightarrow> (Inl e, tr') | (Inr v, tr') \<Rightarrow> f v tr')"

text \<open>\<open>try { m } catch (e) { h e }\<close>\<close>

definition tryCatch :: "'a io \<Rightarrow> (exn \<Rightarrow> 'a io) \<Rightarrow> 'a io" where
  "tryCatch m h = (\<lambda>tr. case m tr of (Inl e, tr') \<Rightarrow> h e tr' | (Inr v, tr') \<Rightarrow> (Inr v, tr'))"

text \<open>\<open>try { await m } catch { }\<close>\<close>

definition attempt :: "'a io \<Rightarrow> unit io" where
  "attempt m = tryCatch (andThen m (\<lambda>_. ret ())) (\<lambda>_. ret ())"

text \<open>\<open>execAsync(command, { cwd })\<close> resolves to the standard output of the command.\<close>

definition execAsync :: "world \<Rightarrow> jsstring \<Rightarrow> jsstring \<Rightarrow> jsstring io" where
  "execAsync W command dir = (\<lambda>tr. (execResult W tr command, tr @ [Exec command dir]))"

text \<open>
  \<open>httpsRequest\<close>: the promise resolves to the body for a status code from 200 to 299
  and is rejected otherwise, or when the request itself fails.
\<close>

definition httpsRequest :: "world \<Rightarrow> request \<Rightarrow> jsstring option \<Rightarrow> jsstring io" where
  "httpsRequest W options data =
     (\<lambda>tr. let written = (case data of Some d \<Rightarrow> if d \<noteq> [] then Some d else None | None \<Rightarrow> None)
           in (case httpsResponse W tr options written of
                 Inl e \<Rightarrow> Inl e
               | Inr (statusCode, body) \<Rightarrow>
                   (case statusCode of
                      Some c \<Rightarrow> if c \<noteq> 0 \<and> 200 \<le> c \<and> c < 300 then Inr body
                                else Inl (HttpError statusCode body)
                    | None \<Rightarrow> Inl (HttpError statusCode body)),
               tr @ [Https options written]))"

section \<open>Configuration\<close>

text \<open>The environment variables the server reads; \<open>None\<close> is an unset variable.\<close>

record env =
  JIRA_BASE_URL :: "jsstring option"
  JIRA_API_TOKEN :: "jsstring option"
  JIRA_PERSONAL_ACCESS_TOKEN :: "jsstring option"
  JIRA_USERNAME :: "jsstring option"
  JIRA_EMAIL :: "jsstring option"
  JIRA_CLOUD_ID :: "jsstring option"
  CLOUD_ID :: "jsstring option"
  GITHUB_TOKEN :: "jsstring option"
  GITHUB_REPO :: "jsstring option"
  GITHUB_DEFAULT_BRANCH :: "jsstring option"
  GITLAB_DEFAULT_BRANCH :: "jsstring option"

text \<open>A variable is truthy when it is set to a non-empty string.\<close>

definition isSet :: "jsstring option \<Rightarrow> bool" where
  "isSet v = (case v of Some s \<Rightarrow> s \<noteq> [] | None \<Rightarrow> False)"

text \<open>\<open>a || b\<close> on two variables.\<close>

definition orVar :: "jsstring option \<Rightarrow> jsstring option \<Rightarrow> jsstring option" where
  "orVar a b = (if isSet a then a else b)"

text \<open>\<open>!v || v.trim() === ""\<close>\<close>

definition isBlank :: "jsstring option \<Rightarrow> bool" where
  "isBlank v = (case v of Some s \<Rightarrow> s = [] \<or> jsTrim s = [] | None \<Rightarrow> True)"

datatype jiraType = Cloud | Datacenter

definition getJiraType :: "env \<Rightarrow> jiraType" where
  "getJiraType E = (if \<not> isBlank (JIRA_BASE_URL E) then Datacenter else Cloud)"

text \<open>\<open>.replace(/^["']|["']$/g, '')\<close>: one quote is removed from each end.\<close>

definition stripQuotes :: "jsstring \<Rightarrow> jsstring" where
  "stripQuotes s =
     (let s1 = (if s \<noteq> [] \<and> (hd s = 34 \<or> hd s = 39) then tl s else s)
      in if s1 \<noteq> [] \<and> (last s1 = 34 \<or> last s1 = 39) then butlast s1 else s1)"

definition msgCloudIdNotSet :: jsstring where
  "msgCloudIdNotSet =
     js ''JIRA_CLOUD_ID not set. Please set it in environment variables for Jira Cloud, or set JIRA_BASE_URL for Data Center.''"

definition getCloudId :: "env \<Rightarrow> exn + jsstring" where
  "getCloudId E =
     (if getJiraType E = Datacenter then
        (case JIRA_BASE_URL E of
           Some baseUrl \<Rightarrow>
             if baseUrl \<noteq> [] then Inr baseUrl
             else Inl (Error (js ''JIRA_BASE_URL is required for Data Center''))
         | None \<Rightarrow> Inl (Error (js ''JIRA_BASE_URL is required for Data Center'')))
      else
        (case orVar (JIRA_CLOUD_ID E) (CLOUD_ID E) of
           Some envCloudId \<Rightarrow>
             if envCloudId \<noteq> [] then Inr (jsTrim (stripQuotes envCloudId))
             else Inl (Error msgCloudIdNotSet)
         | None \<Rightarrow> Inl (Error msgCloudIdNotSet)))"

section \<open>The Data Center REST adapter\<close>

text \<open>Template literals convert a value with \<open>ToString\<close>; a string converts to itself.\<close>

definition toStr :: "builtins \<Rightarrow> json \<Rightarrow> jsstring" where
  "toStr B v = (case v of JStr s \<Rightarrow> s | _ \<Rightarrow> toStringJS B v)"

definition strOf :: "jsstring option \<Rightarrow> jsstring" where
  "strOf v = (case v of Some s \<Rightarrow> s | None \<Rightarrow> [])"

definition msgBaseUrlRequired :: jsstring where
  "msgBaseUrlRequired = js ''JIRA_BASE_URL is required for Data Center''"

definition msgTokenRequired :: jsstring where
  "msgTokenRequired =
     js ''JIRA_API_TOKEN or JIRA_PERSONAL_ACCESS_TOKEN is required for Data Center. Please set one of these environment variables with your API token.''"

definition msgUsernameRequired :: jsstring where
  "msgUsernameRequired =
     js ''JIRA_USERNAME or JIRA_EMAIL is required for Data Center authentication when using API Token. For Personal Access Token, only JIRA_PERSONAL_ACCESS_TOKEN is needed.''"

definition msgNoAuthMethod :: jsstring where
  "msgNoAuthMethod =
     js ''Unable to determine authentication method. Please set JIRA_PERSONAL_ACCESS_TOKEN or JIRA_API_TOKEN with JIRA_USERNAME/JIRA_EMAIL.''"

text \<open>The \<open>Authorization\<close> header, as \<open>callJiraDataCenterAPI\<close> computes it.\<close>

definition authHeader :: "builtins \<Rightarrow> env \<Rightarrow> exn + jsstring" where
  "authHeader B E =
     (let token = orVar (JIRA_API_TOKEN E) (JIRA_PERSONAL_ACCESS_TOKEN E);
          username = orVar (JIRA_USERNAME E) (JIRA_EMAIL E)
      in if isSet (JIRA_PERSONAL_ACCESS_TOKEN E) \<and> isSet token \<and> \<not> isSet (JIRA_API_TOKEN E)
         then Inr (js ''Bearer '' @ jsTrim (strOf token))
         else let authUsername = orVar (JIRA_EMAIL E) (orVar (JIRA_USERNAME E) username)
              in if isSet authUsername \<and> isSet token
                 then Inr (js ''Basic '' @
                           base64 B (jsTrim (strOf authUsername) @ js '':'' @ jsTrim (strOf token)))
                 else Inl (Error msgNoAuthMethod))"

definition callJiraDataCenterAPI ::
  "builtins \<Rightarrow> world \<Rightarrow> env \<Rightarrow> jsstring \<Rightarrow> jsstring \<Rightarrow> json \<Rightarrow> json io" where
  "callJiraDataCenterAPI B W E endpoint meth body =
     (let baseUrl = JIRA_BASE_URL E;
          token = orVar (JIRA_API_TOKEN E) (JIRA_PERSONAL_ACCESS_TOKEN E);
          username = orVar (JIRA_USERNAME E) (JIRA_EMAIL E);
          isPersonalAccessToken =
            (isSet (JIRA_PERSONAL_ACCESS_TOKEN E) \<and> \<not> isSet (JIRA_API_TOKEN E))
      in if isBlank baseUrl then throw (Error msgBaseUrlRequired)
         else if isBlank token then throw (Error msgTokenRequired)
         else if \<not> isPersonalAccessToken \<and> isBlank username
           then throw (Error msgUsernameRequired)
         else (case parseURL B (strOf baseUrl) of
                 None \<Rightarrow> throw TypeError
               | Some u \<Rightarrow>
                   (let apiPath = (if startsWith endpoint (js ''/rest/api'') then endpoint
                                   else js ''/rest/api/2/'' @ endpoint);
                        fullPath = (if endsWith (url_pathname u) (js ''/'')
                                    then butlast (url_pathname u) @ apiPath
                                    else url_pathname u @ apiPath)
                    in (case authHeader B E of
                          Inl e \<Rightarrow> throw e
                        | Inr auth \<Rightarrow>
                            andThen
                              (httpsRequest W
                                 \<lparr> hostname = url_hostname u,
                                   port = (if url_port u \<noteq> [] then JStr (url_port u)
                                           else JNum (if url_protocol u = js ''https:''
                                                      then 443 else 80)),
                                   path = fullPath,
                                   httpMethod = meth,
                                   headers = [(js ''Authorization'', auth),
                                              (js ''Content-Type'', js ''application/json''),
                                              (js ''Accept'', js ''application/json'')] \<rparr>
                                 (if truthy body then Some (jsonStringify B body) else None))
                              (\<lambda>response.
                                 if response = [] \<or> jsTrim response = [] then ret (JObj [])
                                 else (case jsonParse B response of
                                         Some v \<Rightarrow> ret v
                                       | None \<Rightarrow> ret (JObj [])))))))"

text \<open>The envelope the remote tool server would return: one text block with the JSON.\<close>

definition mcpText :: "builtins \<Rightarrow> json \<Rightarrow> json" where
  "mcpText B result =
     JObj [(js ''content'',
            JArr [JObj [(js ''type'', JStr (js ''text'')),
                        (js ''text'', JStr (jsonStringifyPretty B result))]])]"

text \<open>\<open>obj[k] = v\<close> on the list of properties of an object.\<close>

fun setProp :: "(jsstring \<times> json) list \<Rightarrow> jsstring \<Rightarrow> json \<Rightarrow> (jsstring \<times> json) list" where
  "setProp [] k v = [(k, v)]"
| "setProp ((k', v') # fs) k v = (if k' = k then (k, v) # fs else (k', v') # setProp fs k v)"

text \<open>\<open>Object.entries\<close>: the properties of an object, the indexed elements of an array.\<close>

definition entriesOf :: "builtins \<Rightarrow> json \<Rightarrow> (jsstring \<times> json) list" where
  "entriesOf B v =
     (case v of
        JObj fs \<Rightarrow> fs
      | JArr xs \<Rightarrow> zip (map (\<lambda>i. toStringJS B (JNum (int i))) [0..<length xs]) xs
      | _ \<Rightarrow> [])"

text \<open>\<open>v && typeof v === "object"\<close>\<close>

fun isObjectValue :: "json \<Rightarrow> bool" where
  "isObjectValue (JObj _) = True"
| "isObjectValue (JArr _) = True"
| "isObjectValue _ = False"

definition msgNotImplemented :: "jsstring \<Rightarrow> jsstring" where
  "msgNotImplemented name =
     js ''Tool '' @ name @ js '' not yet implemented for Data Center. Please use Jira Cloud or implement this tool.''"

definition callJiraDataCenterTool ::
  "builtins \<Rightarrow> world \<Rightarrow> env \<Rightarrow> jsstring \<Rightarrow> json \<Rightarrow> json io" where
  "callJiraDataCenterTool B W E name args =
     (let wrap = (\<lambda>m. andThen m (\<lambda>result. ret (mcpText B result)));
          issuePath = js ''issue/'' @ toStr B (getProp args (js ''issueIdOrKey''))
      in if name = js ''getJiraIssue'' then
           wrap (callJiraDataCenterAPI B W E issuePath (js ''GET'') JUndefined)
         else if name = js ''createJiraIssue'' then
           (let fields0 = [(js ''project'', JObj [(js ''key'', getProp args (js ''projectKey''))]),
                           (js ''summary'', getProp args (js ''summary'')),
                           (js ''issuetype'',
                              JObj [(js ''name'', getProp args (js ''issueTypeName''))])];
                fields1 = (if truthy (getProp args (js ''description''))
                           then setProp fields0 (js ''description'')
                                  (getProp args (js ''description''))
                           else fields0);
                fields2 = (if isObjectValue (getProp args (js ''fields''))
                           then foldl (\<lambda>fs (k, v). setProp fs k v) fields1
                                  (entriesOf B (getProp args (js ''fields'')))
                           else fields1)
            in wrap (callJiraDataCenterAPI B W E (js ''issue'') (js ''POST'')
                       (JObj [(js ''fields'', JObj fields2)])))
         else if name = js ''editJiraIssue'' then
           (let body0 = (if isObjectValue (getProp args (js ''fields''))
                         then [(js ''fields'', getProp args (js ''fields''))] else []);
                body1 = (if isObjectValue (getProp args (js ''update''))
                         then setProp body0 (js ''update'') (getProp args (js ''update''))
                         else body0)
            in wrap (callJiraDataCenterAPI B W E issuePath (js ''PUT'') (JObj body1)))
         else if name = js ''getTransitionsForJiraIssue'' then
           wrap (callJiraDataCenterAPI B W E (issuePath @ js ''/transitions'') (js ''GET'')
                   JUndefined)
         else if name = js ''transitionJiraIssue'' then
           (let transitionData0 = [(js ''transition'', getProp args (js ''transition''))];
                transitionData = (if truthy (getProp args (js ''fields''))
                                  then setProp transitionData0 (js ''fields'')
                                         (getProp args (js ''fields''))
                                  else transitionData0)
            in wrap (callJiraDataCenterAPI B W E (issuePath @ js ''/transitions'') (js ''POST'')
                       (JObj transitionData)))
         else if name = js ''getVisibleJiraProjects'' then
           wrap (callJiraDataCenterAPI B W E (js ''project'') (js ''GET'') JUndefined)
         else if name = js ''getJiraProjectIssueTypesMetadata'' then
           wrap (callJiraDataCenterAPI B W E
                   (js ''project/'' @ toStr B (getProp args (js ''projectIdOrKey''))
                      @ js ''/statuses'')
                   (js ''GET'') JUndefined)
         else if name = js ''getJiraIssueTypeMetaWithFields'' then
           wrap (callJiraDataCenterAPI B W E
                   (js ''issue/createmeta?projectKeys=''
                      @ toStr B (getProp args (js ''projectIdOrKey''))
                      @ js ''&issuetypeNames='' @ toStr B (getProp args (js ''issueTypeId'')))
                   (js ''GET'') JUndefined)
         else if name = js ''addCommentToJiraIssue'' then
           wrap (callJiraDataCenterAPI B W E (issuePath @ js ''/comment'') (js ''POST'')
                   (JObj [(js ''body'', getProp args (js ''commentBody''))]))
         else throw (Error (msgNotImplemented name)))"

text \<open>
  \<open>callJiraTool\<close>: the REST adapter in Data Center mode, otherwise a \<open>tools/call\<close> request
  to the remote tool server (connecting first when there is no connection yet; a failed
  connection rejects like a failed request).
\<close>

definition clientRequest :: "world \<Rightarrow> jsstring \<Rightarrow> json \<Rightarrow> json io" where
  "clientRequest W name args = (\<lambda>tr. (clientResult W tr name args, tr @ [ToolsCall name args]))"

definition callJiraTool :: "builtins \<Rightarrow> world \<Rightarrow> env \<Rightarrow> jsstring \<Rightarrow> json \<Rightarrow> json io" where
  "callJiraTool B W E name args =
     (if getJiraType E = Datacenter then callJiraDataCenterTool B W E name args
      else clientRequest W name args)"

section \<open>Branch automation\<close>

text \<open>\<open>s.split(d)\<close> for a separator of one code unit.\<close>

fun splitOn :: "nat \<Rightarrow> jsstring \<Rightarrow> jsstring list" where
  "splitOn d [] = [[]]"
| "splitOn d (c # cs) =
     (if c = d then [] # splitOn d cs
      else (case splitOn d cs of p # ps \<Rightarrow> (c # p) # ps | [] \<Rightarrow> [[c]]))"

text \<open>\<open>.replace(/\.git$/, "")\<close>\<close>

definition stripDotGit :: "jsstring \<Rightarrow> jsstring" where
  "stripDotGit s = (if endsWith s (js ''.git'') then take (length s - 4) s else s)"

text \<open>
  \<open>.replace(/^\/|\/$|\.git$/g, "")\<close>: a leading slash is removed, and then a trailing
  slash or a trailing \<open>.git\<close> of what follows it.
\<close>

definition stripSlashesAndGit :: "jsstring \<Rightarrow> jsstring" where
  "stripSlashesAndGit s =
     (let s1 = (if startsWith s (js ''/'') then tl s else s)
      in if endsWith s1 (js ''/'') then butlast s1 else stripDotGit s1)"

definition parseGitHubRepo :: "builtins \<Rightarrow> jsstring \<Rightarrow> (jsstring \<times> jsstring) option" where
  "parseGitHubRepo B repo =
     (let repoPath0 = jsTrim repo;
          fromUrl = (if startsWith repoPath0 (js ''http://'') \<or> startsWith repoPath0 (js ''https://'')
                     then (case parseURL B repoPath0 of
                             Some u \<Rightarrow> Some (stripSlashesAndGit (url_pathname u))
                           | None \<Rightarrow> None)
                     else Some repoPath0)
      in (case fromUrl of
            None \<Rightarrow> None
          | Some repoPath1 \<Rightarrow>
              (case filter (\<lambda>p. p \<noteq> []) (splitOn 47 (stripDotGit repoPath1)) of
                 owner # repoName # _ \<Rightarrow> Some (owner, repoName)
               | _ \<Rightarrow> None)))"

definition msgInvalidRepo :: "jsstring \<Rightarrow> jsstring" where
  "msgInvalidRepo repo =
     js ''Invalid GITHUB_REPO format. Expected '' @ [34] @ js ''owner/repo'' @ [34]
       @ js '', got: '' @ repo"

definition getDefaultBranchSha ::
  "builtins \<Rightarrow> world \<Rightarrow> jsstring \<Rightarrow> jsstring \<Rightarrow> jsstring \<Rightarrow> json io" where
  "getDefaultBranchSha B W repo branch token =
     (case splitOn 47 repo of
        owner # repoName # _ \<Rightarrow>
          if owner = [] \<or> repoName = []
          then throw (Error (msgInvalidRepo repo))
          else andThen
                 (httpsRequest W
                    \<lparr> hostname = js ''api.github.com'',
                      port = JUndefined,
                      path = js ''/repos/'' @ owner @ js ''/'' @ repoName
                               @ js ''/git/ref/heads/'' @ branch,
                      httpMethod = js ''GET'',
                      headers = [(js ''Authorization'', js ''token '' @ token),
                                 (js ''User-Agent'', js ''jira-mcp-poc''),
                                 (js ''Accept'', js ''application/vnd.github.v3+json'')] \<rparr>
                    None)
                 (\<lambda>response.
                    case jsonParse B response of
                      None \<Rightarrow> throw SyntaxError
                    | Some d \<Rightarrow>
                        if nullish d \<or> nullish (getProp d (js ''object'')) then throw TypeError
                        else ret (getProp (getProp d (js ''object'')) (js ''sha'')))
      | _ \<Rightarrow> throw (Error (msgInvalidRepo repo)))"

text \<open>
  The branch name: the sanitized custom name when one is given and not blank, otherwise
  the lower-cased issue key.  Both arguments arrive as unchecked values; calling \<open>trim\<close> or
  \<open>toLowerCase\<close> on a value that is not a string raises a \<open>TypeError\<close>.
\<close>

definition deriveBranchName :: "builtins \<Rightarrow> json \<Rightarrow> json \<Rightarrow> exn + jsstring" where
  "deriveBranchName B issueKey customBranchName =
     (let fromKey = (case issueKey of JStr k \<Rightarrow> Inr (toLowerCase B k) | _ \<Rightarrow> Inl TypeError)
      in if truthy customBranchName then
           (case customBranchName of
              JStr c \<Rightarrow> if jsTrim c \<noteq> [] then Inr (sanitizeBranchName B (jsTrim c)) else fromKey
            | _ \<Rightarrow> Inl TypeError)
         else fromKey)"

definition createGitHubBranch :: "builtins \<Rightarrow> world \<Rightarrow> env \<Rightarrow> json \<Rightarrow> json \<Rightarrow> unit io" where
  "createGitHubBranch B W E issueKey customBranchName =
     (if \<not> isSet (GITHUB_TOKEN E) \<or> \<not> isSet (GITHUB_REPO E) then ret ()
      else (case parseGitHubRepo B (strOf (GITHUB_REPO E)) of
              None \<Rightarrow> ret ()
            | Some (owner, repoName) \<Rightarrow>
                tryCatch
                  (andThen (lift (deriveBranchName B issueKey customBranchName)) (\<lambda>branchName.
                   let defaultBranch = strOf (orVar (GITHUB_DEFAULT_BRANCH E) (Some (js ''main'')))
                   in andThen
                        (getDefaultBranchSha B W (owner @ js ''/'' @ repoName) defaultBranch
                           (strOf (GITHUB_TOKEN E)))
                        (\<lambda>sha.
                           andThen
                             (httpsRequest W
                                \<lparr> hostname = js ''api.github.com'',
                                  port = JUndefined,
                                  path = js ''/repos/'' @ owner @ js ''/'' @ repoName
                                           @ js ''/git/refs'',
                                  httpMethod = js ''POST'',
                                  headers =
                                    [(js ''Authorization'', js ''token '' @ strOf (GITHUB_TOKEN E)),
                                     (js ''User-Agent'', js ''jira-mcp-poc''),
                                     (js ''Accept'', js ''application/vnd.github.v3+json''),
                                     (js ''Content-Type'', js ''application/json'')] \<rparr>
                                (Some (jsonStringify B
                                         (JObj [(js ''ref'', JStr (js ''refs/heads/'' @ branchName)),
                                                (js ''sha'', sha)]))))
                             (\<lambda>_. ret ()))))
                  (\<lambda>_. ret ())))"

definition branchExists :: "world \<Rightarrow> jsstring \<Rightarrow> jsstring \<Rightarrow> bool io" where
  "branchExists W branchName repoPath =
     tryCatch
       (andThen (execAsync W (js ''git branch --list '' @ branchName) repoPath)
          (\<lambda>stdout. ret (jsTrim stdout \<noteq> [])))
       (\<lambda>_. ret False)"

definition createGitLabBranch :: "builtins \<Rightarrow> world \<Rightarrow> env \<Rightarrow> json \<Rightarrow> json \<Rightarrow> unit io" where
  "createGitLabBranch B W E issueKey customBranchName =
     (let localRepoPath = cwd W
      in if \<not> existsSync W localRepoPath then ret ()
         else if \<not> existsSync W (pathJoin B localRepoPath (js ''.git'')) then ret ()
         else
           tryCatch
             (andThen (lift (deriveBranchName B issueKey customBranchName)) (\<lambda>branchName.
              let defaultBranch =
                    strOf (orVar (GITLAB_DEFAULT_BRANCH E)
                             (orVar (GITHUB_DEFAULT_BRANCH E) (Some (js ''master''))))
              in tryCatch
                   (andThen (attempt (execAsync W (js ''git fetch origin'') localRepoPath)) (\<lambda>_.
                    andThen
                      (tryCatch
                         (andThen
                            (execAsync W (js ''git checkout '' @ defaultBranch) localRepoPath)
                            (\<lambda>_. ret ()))
                         (\<lambda>_. attempt
                                (execAsync W (js ''git checkout -b '' @ defaultBranch)
                                   localRepoPath)))
                      (\<lambda>_.
                    andThen
                      (attempt (execAsync W (js ''git pull origin '' @ defaultBranch)
                                  localRepoPath))
                      (\<lambda>_.
                    andThen (branchExists W branchName localRepoPath) (\<lambda>exists.
                      if \<not> exists
                      then attempt (execAsync W (js ''git checkout -b '' @ branchName)
                                      localRepoPath)
                      else attempt (execAsync W (js ''git checkout '' @ branchName)
                                      localRepoPath))))))
                   (\<lambda>_. ret ())))
             (\<lambda>_. ret ()))"

section \<open>Extracting the issue key\<close>

text \<open>
  \<open>text.match(/([A-Z]+-\d+)/)\<close>: the leftmost match.  At a given position the match
  takes the maximal run of capital letters, which must be followed by a hyphen and at
  least one digit, and then the maximal run of digits.
\<close>

definition isUpper :: "nat \<Rightarrow> bool" where
  "isUpper c = (65 \<le> c \<and> c \<le> 90)"

definition isDigit :: "nat \<Rightarrow> bool" where
  "isDigit c = (48 \<le> c \<and> c \<le> 57)"

definition matchKeyAt :: "jsstring \<Rightarrow> jsstring option" where
  "matchKeyAt s =
     (let letters = takeWhile isUpper s
      in if letters = [] then None
         else (case dropWhile isUpper s of
                 c # rest \<Rightarrow>
                   if c = 45 \<and> takeWhile isDigit rest \<noteq> []
                   then Some (letters @ [45] @ takeWhile isDigit rest)
                   else None
               | [] \<Rightarrow> None))"

fun firstKeyMatch :: "jsstring \<Rightarrow> jsstring option" where
  "firstKeyMatch [] = None"
| "firstKeyMatch (c # cs) =
     (case matchKeyAt (c # cs) of Some m \<Rightarrow> Some m | None \<Rightarrow> firstKeyMatch cs)"

text \<open>A whole string of the form \<open>[A-Z]+-[0-9]+\<close>.\<close>

definition isIssueKey :: "jsstring \<Rightarrow> bool" where
  "isIssueKey s = (matchKeyAt s = Some s)"

text \<open>\<open>parsed?.key || parsed?.fields?.key || parsed?.id || null\<close>\<close>

definition keyOfParsed :: "json \<Rightarrow> json" where
  "keyOfParsed parsed =
     orElse (getProp parsed (js ''key''))
       (orElse (getProp (getProp parsed (js ''fields'')) (js ''key''))
          (orElse (getProp parsed (js ''id'')) JNull))"

text \<open>
  The loop over \<open>responseObj.content\<close>.  The result is the value of \<open>issueKey\<close> when the
  loop ends, or the exception that leaves it: reading a property of a null item, or
  calling \<open>match\<close> on a text that is not a string.
\<close>

fun scanContent :: "builtins \<Rightarrow> json list \<Rightarrow> exn + json" where
  "scanContent B [] = Inr JNull"
| "scanContent B (item # items) =
     (if nullish item then Inl TypeError
      else if getProp item (js ''type'') = JStr (js ''text'') \<and> truthy (getProp item (js ''text''))
      then (case jsonParse B (toStr B (getProp item (js ''text''))) of
              Some parsed \<Rightarrow>
                if truthy (keyOfParsed parsed) then Inr (keyOfParsed parsed)
                else scanContent B items
            | None \<Rightarrow>
                (case getProp item (js ''text'') of
                   JStr t \<Rightarrow>
                     (case firstKeyMatch t of
                        Some m \<Rightarrow> Inr (JStr m)
                      | None \<Rightarrow> scanContent B items)
                 | _ \<Rightarrow> Inl TypeError))
      else scanContent B items)"

text \<open>
  The value of \<open>issueKey\<close> that \<open>handleCreateResponse\<close> computes before it creates the
  branch; an exception in this part leaves \<open>issueKey\<close> at \<open>null\<close>.
\<close>

definition extractIssueKey :: "builtins \<Rightarrow> json \<Rightarrow> json" where
  "extractIssueKey B res =
     (let responseObj = (case res of
                           JStr s \<Rightarrow> (case jsonParse B s of Some v \<Rightarrow> v | None \<Rightarrow> res)
                         | _ \<Rightarrow> res)
      in if truthy (orElse (getProp responseObj (js ''isError'')) (getProp responseObj (js ''error'')))
         then JNull
         else (case getProp responseObj (js ''content'') of
                 JArr items \<Rightarrow> (case scanContent B items of Inl e \<Rightarrow> JNull | Inr k \<Rightarrow> k)
               | _ \<Rightarrow>
                   orElse (getProp responseObj (js ''key''))
                     (orElse (getProp (getProp responseObj (js ''fields'')) (js ''key''))
                        (orElse (getProp responseObj (js ''id''))
                           (orElse (getProp responseObj (js ''issueKey'')) JNull)))))"

definition handleCreateResponse ::
  "builtins \<Rightarrow> world \<Rightarrow> env \<Rightarrow> json \<Rightarrow> json \<Rightarrow> json io" where
  "handleCreateResponse B W E res branchNameInput =
     (let issueKey = extractIssueKey B res
      in if truthy issueKey then
           tryCatch
             (let branchName = (if truthy branchNameInput then branchNameInput else JUndefined);
                  hasGitHub = (isSet (GITHUB_TOKEN E) \<and> isSet (GITHUB_REPO E));
                  isGitRepo = existsSync W (pathJoin B (cwd W) (js ''.git''))
              in andThen
                   (if isGitRepo then createGitLabBranch B W E issueKey branchName
                    else if hasGitHub then createGitHubBranch B W E issueKey branchName
                    else ret ())
                   (\<lambda>_. ret issueKey))
             (\<lambda>_. ret issueKey)
         else ret issueKey)"

section \<open>The composite tools\<close>

text \<open>\<open>(args.cloudId as string) || getCloudId()\<close>\<close>

definition resolveCloudId :: "env \<Rightarrow> json \<Rightarrow> json io" where
  "resolveCloudId E args =
     (if truthy (getProp args (js ''cloudId'')) then ret (getProp args (js ''cloudId''))
      else (case getCloudId E of Inl e \<Rightarrow> throw e | Inr c \<Rightarrow> ret (JStr c)))"

text \<open>\<open>!v || v.trim() === ""\<close> on an argument of any type.\<close>

definition isMissingOrBlank :: "json \<Rightarrow> exn + bool" where
  "isMissingOrBlank v =
     (if \<not> truthy v then Inr True
      else (case v of JStr s \<Rightarrow> Inr (jsTrim s = []) | _ \<Rightarrow> Inl TypeError))"

definition msgRequired :: "string \<Rightarrow> jsstring" where
  "msgRequired field = js field @ js '' is required and cannot be empty''"

definition createJiraIssueWithBranch :: "builtins \<Rightarrow> world \<Rightarrow> env \<Rightarrow> json \<Rightarrow> json io" where
  "createJiraIssueWithBranch B W E args =
     andThen (resolveCloudId E args) (\<lambda>cloudId.
     let projectKey = getProp args (js ''projectKey'');
         issueTypeName = getProp args (js ''issueTypeName'');
         summary = getProp args (js ''summary'')
     in
     andThen (lift (isMissingOrBlank projectKey)) (\<lambda>b1.
     if b1 then throw (Error (msgRequired ''projectKey'')) else
     andThen (lift (isMissingOrBlank issueTypeName)) (\<lambda>b2.
     if b2 then throw (Error (msgRequired ''issueTypeName'')) else
     andThen (lift (isMissingOrBlank summary)) (\<lambda>b3.
     if b3 then throw (Error (msgRequired ''summary'')) else
     (let summaryValue = jsTrim (toStr B summary);
          descriptionValue =
            (case getProp args (js ''description'') of
               JStr d \<Rightarrow> if d \<noteq> [] \<and> jsTrim d \<noteq> [] then JStr (jsTrim d) else JUndefined
             | _ \<Rightarrow> JUndefined);
          fields =
            (if isObjectValue (getProp args (js ''fields''))
             then foldl (\<lambda>fs (k, v). if k = js ''summary'' \<or> k = js ''description'' then fs
                                      else setProp fs k v)
                    [] (entriesOf B (getProp args (js ''fields'')))
             else []);
          createArgs0 = [(js ''projectKey'', JStr (jsTrim (toStr B projectKey))),
                         (js ''issueTypeName'', JStr (jsTrim (toStr B issueTypeName))),
                         (js ''summary'', JStr summaryValue)];
          createArgs1 = (if truthy descriptionValue
                         then setProp createArgs0 (js ''description'') descriptionValue
                         else createArgs0);
          createArgs2 = (if fields \<noteq> [] then setProp createArgs1 (js ''fields'') (JObj fields)
                         else createArgs1);
          createArgs = (if getJiraType E = Cloud
                        then setProp createArgs2 (js ''cloudId'') (JStr (jsTrim (toStr B cloudId)))
                        else createArgs2)
      in andThen (callJiraTool B W E (js ''createJiraIssue'') (JObj createArgs)) (\<lambda>res.
         andThen (handleCreateResponse B W E res (getProp args (js ''branchName''))) (\<lambda>issueKey.
         ret (mcpText B
                (JObj [(js ''success'', JBool True),
                       (js ''issueKey'', issueKey),
                       (js ''message'',
                          JStr (if truthy issueKey
                                then js ''Issue '' @ toStr B issueKey
                                       @ js '' created successfully and branch created''
                                else js ''Issue created successfully'')),
                       (js ''data'', res)])))))))))"

text \<open>The \<open>fields\<close> argument of the edit call, from the assignee string.\<close>

definition assigneeField :: "builtins \<Rightarrow> jsstring \<Rightarrow> json" where
  "assigneeField B assigneeInput =
     (if toLowerCase B assigneeInput = js ''unassign'' \<or> assigneeInput = []
      then JObj [(js ''assignee'', JNull)]
      else if jsIncludes assigneeInput (js ''@'')
      then JObj [(js ''assignee'', JObj [(js ''emailAddress'', JStr assigneeInput)])]
      else if jsIncludes assigneeInput (js '':'') \<or> length assigneeInput > 30
      then JObj [(js ''assignee'', JObj [(js ''accountId'', JStr assigneeInput)])]
      else JObj [(js ''assignee'', JObj [(js ''name'', JStr assigneeInput)])])"

definition assignJiraIssueWithAnalysis :: "builtins \<Rightarrow> world \<Rightarrow> env \<Rightarrow> json \<Rightarrow> json io" where
  "assignJiraIssueWithAnalysis B W E args =
     andThen (resolveCloudId E args) (\<lambda>cloudId.
     case getProp args (js ''assignee'') of
       JStr assigneeInput \<Rightarrow>
         andThen
           (callJiraTool B W E (js ''editJiraIssue'')
              (JObj [(js ''cloudId'', cloudId),
                     (js ''issueIdOrKey'', getProp args (js ''issueIdOrKey'')),
                     (js ''fields'', assigneeField B assigneeInput)]))
           (\<lambda>res.
              ret (mcpText B
                     (JObj [(js ''success'', JBool True),
                            (js ''message'',
                               JStr (js ''Issue '' @ toStr B (getProp args (js ''issueIdOrKey''))
                                       @ js '' assigned successfully'')),
                            (js ''data'', res)])))
     | _ \<Rightarrow> throw TypeError)"

text \<open>
  \<open>v?.toLowerCase().includes("review")\<close>: \<open>undefined\<close> (falsy) for a nullish \<open>v\<close>, a
  \<open>TypeError\<close> for any other value that is not a string.
\<close>

definition mentionsReview :: "builtins \<Rightarrow> json \<Rightarrow> exn + bool" where
  "mentionsReview B v =
     (if nullish v then Inr False
      else (case v of
              JStr s \<Rightarrow> Inr (jsIncludes (toLowerCase B s) (js ''review''))
            | _ \<Rightarrow> Inl TypeError))"

text \<open>The predicate given to \<open>transitions.find\<close>.\<close>

definition isReviewTransition :: "builtins \<Rightarrow> json \<Rightarrow> exn + bool" where
  "isReviewTransition B t =
     (if nullish t then Inl TypeError
      else (case mentionsReview B (getProp t (js ''name'')) of
              Inl e \<Rightarrow> Inl e
            | Inr True \<Rightarrow> Inr True
            | Inr False \<Rightarrow> mentionsReview B (getProp (getProp t (js ''to'')) (js ''name''))))"

fun findReviewTransition :: "builtins \<Rightarrow> json list \<Rightarrow> exn + json" where
  "findReviewTransition B [] = Inr JUndefined"
| "findReviewTransition B (t # ts) =
     (case isReviewTransition B t of
        Inl e \<Rightarrow> Inl e
      | Inr True \<Rightarrow> Inr t
      | Inr False \<Rightarrow> findReviewTransition B ts)"

definition msgNoReviewTransition :: jsstring where
  "msgNoReviewTransition = js ''No 'In Review' transition found for this issue''"

definition transitionJiraIssueToReview :: "builtins \<Rightarrow> world \<Rightarrow> env \<Rightarrow> json \<Rightarrow> json io" where
  "transitionJiraIssueToReview B W E args =
     andThen (resolveCloudId E args) (\<lambda>cloudId.
     andThen
       (callJiraTool B W E (js ''getTransitionsForJiraIssue'')
          (JObj [(js ''cloudId'', cloudId),
                 (js ''issueIdOrKey'', getProp args (js ''issueIdOrKey''))]))
       (\<lambda>transitionsRes.
     let transitions = orElse (getProp transitionsRes (js ''transitions'')) (JArr [])
     in
     andThen (lift (case transitions of
                      JArr ts \<Rightarrow> findReviewTransition B ts
                    | _ \<Rightarrow> Inl TypeError))
       (\<lambda>reviewTransition.
     if \<not> truthy reviewTransition then throw (Error msgNoReviewTransition)
     else
       andThen
         (callJiraTool B W E (js ''transitionJiraIssue'')
            (JObj [(js ''cloudId'', cloudId),
                   (js ''issueIdOrKey'', getProp args (js ''issueIdOrKey'')),
                   (js ''transition'', JObj [(js ''id'', getProp reviewTransition (js ''id''))])]))
         (\<lambda>res.
            ret (mcpText B
                   (JObj [(js ''success'', JBool True),
                          (js ''message'',
                             JStr (js ''Issue '' @ toStr B (getProp args (js ''issueIdOrKey''))
                                     @ js '' transitioned to review'')),
                          (js ''data'', res)]))))))"

definition analyzeJiraIssue :: "builtins \<Rightarrow> world \<Rightarrow> env \<Rightarrow> json \<Rightarrow> json io" where
  "analyzeJiraIssue B W E args =
     andThen (resolveCloudId E args) (\<lambda>cloudId.
     let issueIdOrKey = getProp args (js ''issueIdOrKey'')
     in
     andThen (lift (isMissingOrBlank issueIdOrKey)) (\<lambda>b.
     if b then throw (Error (msgRequired ''issueIdOrKey'')) else
     andThen
       (callJiraTool B W E (js ''getJiraIssue'')
          (JObj [(js ''cloudId'', cloudId),
                 (js ''issueIdOrKey'', JStr (jsTrim (toStr B issueIdOrKey)))]))
       (\<lambda>issueRes.
     andThen
       (createGitLabBranch B W E (JStr (jsTrim (toStr B issueIdOrKey)))
          (getProp args (js ''branchName'')))
       (\<lambda>_.
     ret (mcpText B
            (JObj [(js ''success'', JBool True),
                   (js ''message'',
                      JStr (js ''Branch created/checked out for issue '' @ toStr B issueIdOrKey
                              @ js ''. Ready for analysis.'')),
                   (js ''issueKey'', JStr (jsTrim (toStr B issueIdOrKey))),
                   (js ''issue'', issueRes)]))))))"

text \<open>The handler of \<open>tools/call\<close>; any other tool name is passed through.\<close>

definition callTool :: "builtins \<Rightarrow> world \<Rightarrow> env \<Rightarrow> jsstring \<Rightarrow> json \<Rightarrow> json io" where
  "callTool B W E toolName arguments =
     (let args = orElse arguments (JObj [])
      in if toolName = js ''createJiraIssueWithBranch'' then createJiraIssueWithBranch B W E args
         else if toolName = js ''assignJiraIssueWithAnalysis''
           then assignJiraIssueWithAnalysis B W E args
         else if toolName = js ''transitionJiraIssueToReview''
           then transitionJiraIssueToReview B W E args
         else if toolName = js ''analyzeJiraIssue'' then analyzeJiraIssue B W E args
         else callJiraTool B W E toolName args)"

section \<open>Notions used in the statements\<close>

text \<open>
  A string over \<open>[a-z0-9-]\<close> without two hyphens in a row: the invariant of the output of
  \<open>replaceRuns\<close>, kept by trimming and truncation.
\<close>

fun wellSep :: "jsstring \<Rightarrow> bool" where
  "wellSep [] = True"
| "wellSep [c] = (isLowerAlnum c \<or> c = 45)"
| "wellSep (c # d # cs) =
     ((isLowerAlnum c \<or> c = 45) \<and> \<not> (c = 45 \<and> d = 45) \<and> wellSep (d # cs))"

text \<open>
  What \<open>String.prototype.toLowerCase\<close> does on a string of Basic Latin: capital letters
  are mapped to small letters and nothing else changes.
\<close>

definition asciiLowerCase :: "builtins \<Rightarrow> bool" where
  "asciiLowerCase B = (\<forall>s. list_all (\<lambda>c. c < 128) s \<longrightarrow> toLowerCase B s = lowerBasic s)"

text \<open>
  The authentication scheme as the specification words it, for a reading of
  ``configured'' given as a predicate on a variable: a personal access token and no
  legacy token gives the Bearer scheme; else a legacy token and a user name or e-mail
  give the Basic scheme; else there is none.
\<close>

datatype scheme = BearerScheme | BasicScheme

definition spec_authScheme :: "(jsstring option \<Rightarrow> bool) \<Rightarrow> env \<Rightarrow> scheme option" where
  "spec_authScheme configured E =
     (if configured (JIRA_PERSONAL_ACCESS_TOKEN E) \<and> \<not> configured (JIRA_API_TOKEN E)
      then Some BearerScheme
      else if configured (JIRA_API_TOKEN E)
              \<and> (configured (JIRA_USERNAME E) \<or> configured (JIRA_EMAIL E))
      then Some BasicScheme
      else None)"

text \<open>The \<open>Authorization\<close> header of a request.\<close>

definition authorizationOf :: "request \<Rightarrow> jsstring option" where
  "authorizationOf req = map_of (headers req) (js ''Authorization'')"









text \<open>The request \<open>callJiraDataCenterAPI\<close> sends for a parsed base URL and a header.\<close>

definition dcRequest :: "builtins \<Rightarrow> url \<Rightarrow> jsstring \<Rightarrow> jsstring \<Rightarrow> jsstring \<Rightarrow> request" where
  "dcRequest B u endpoint meth auth =
      \<lparr> hostname = url_hostname u,
         port = (if url_port u \<noteq> [] then JStr (url_port u)
                 else JNum (if url_protocol u = js ''https:'' then 443 else 80)),
         path = (if endsWith (url_pathname u) (js ''/'')
                 then butlast (url_pathname u) @ (if startsWith endpoint (js ''/rest/api'') then endpoint
                                   else js ''/rest/api/2/'' @ endpoint)
                 else url_pathname u @ (if startsWith endpoint (js ''/rest/api'') then endpoint
                                   else js ''/rest/api/2/'' @ endpoint)),
         httpMethod = meth,
         headers = [(js ''Authorization'', auth),
                    (js ''Content-Type'', js ''application/json''),
                    (js ''Accept'', js ''application/json'')] \<rparr>"

text \<open>A letter that the table maps to a non-empty Latin string.\<close>

definition isTranslitLetter :: "nat \<Rightarrow> bool" where
  "isTranslitLetter c = (case map_of transliterationMap c of Some s \<Rightarrow> s \<noteq> [] | None \<Rightarrow> False)"

definition isAsciiAlnum :: "nat \<Rightarrow> bool" where
  "isAsciiAlnum c = ((65 \<le> c \<and> c \<le> 90) \<or> (97 \<le> c \<and> c \<le> 122) \<or> (48 \<le> c \<and> c \<le> 57))"

text \<open>
  A user is configured when at least one of \<open>JIRA_USERNAME\<close> and \<open>JIRA_EMAIL\<close> is set and
  neither is set to white space.
\<close>

definition userConfigured :: "env \<Rightarrow> bool" where
  "userConfigured E =
     ((isSet (JIRA_USERNAME E) \<or> isSet (JIRA_EMAIL E))
      \<and> (isSet (JIRA_USERNAME E) \<longrightarrow> \<not> isBlank (JIRA_USERNAME E))
      \<and> (isSet (JIRA_EMAIL E) \<longrightarrow> \<not> isBlank (JIRA_EMAIL E)))"

text \<open>
  What \<open>callJiraDataCenterAPI\<close> writes to the request: \<open>JSON.stringify(body)\<close> for a truthy
  body, and nothing when there is no such string.
\<close>

definition writtenBody :: "builtins \<Rightarrow> json \<Rightarrow> jsstring option" where
  "writtenBody B body =
     (if truthy body \<and> jsonStringify B body \<noteq> [] then Some (jsonStringify B body) else None)"

text \<open>
  A configuration with which \<open>callJiraDataCenterAPI\<close> reaches its request: the guards on
  the base address, the token and the user pass, the base address is a URL \<open>u\<close>, and
  \<open>auth\<close> is the \<open>Authorization\<close> header.
\<close>

definition dcConfigured :: "builtins \<Rightarrow> env \<Rightarrow> url \<Rightarrow> jsstring \<Rightarrow> bool" where
  "dcConfigured B E u auth =
     (\<not> isBlank (JIRA_BASE_URL E)
      \<and> \<not> isBlank (orVar (JIRA_API_TOKEN E) (JIRA_PERSONAL_ACCESS_TOKEN E))
      \<and> ((isSet (JIRA_PERSONAL_ACCESS_TOKEN E) \<and> \<not> isSet (JIRA_API_TOKEN E))
           \<or> \<not> isBlank (orVar (JIRA_USERNAME E) (JIRA_EMAIL E)))
      \<and> parseURL B (strOf (JIRA_BASE_URL E)) = Some u
      \<and> authHeader B E = Inr auth)"

text \<open>
  The object \<open>handleCreateResponse\<close> inspects: a string result is parsed when it is JSON.
\<close>

definition responseObject :: "builtins \<Rightarrow> json \<Rightarrow> json" where
  "responseObject B res =
     (case res of
        JStr s \<Rightarrow> (case jsonParse B s of Some v \<Rightarrow> v | None \<Rightarrow> res)
      | _ \<Rightarrow> res)"

text \<open>
  The values the extraction can read from fields.  A text block whose text parses as JSON
  gives the first truthy one of \<open>key\<close>, \<open>fields.key\<close>, \<open>id\<close> of the parsed value; other
  items give nothing.
\<close>

definition blockValues :: "builtins \<Rightarrow> json \<Rightarrow> json list" where
  "blockValues B item =
     (if getProp item (js ''type'') = JStr (js ''text'') \<and> truthy (getProp item (js ''text''))
      then (case jsonParse B (toStr B (getProp item (js ''text''))) of
              Some parsed \<Rightarrow> [keyOfParsed parsed]
            | None \<Rightarrow> [])
      else [])"

text \<open>
  For a content-block list, the values of its blocks; for any other result, its own
  \<open>key\<close>, \<open>fields.key\<close>, \<open>id\<close> and \<open>issueKey\<close>.
\<close>

definition fieldValues :: "builtins \<Rightarrow> json \<Rightarrow> json list" where
  "fieldValues B r =
     (case getProp r (js ''content'') of
        JArr items \<Rightarrow> concat (map (blockValues B) items)
      | _ \<Rightarrow>
          [getProp r (js ''key''),
           getProp (getProp r (js ''fields'')) (js ''key''),
           getProp r (js ''id''),
           getProp r (js ''issueKey'')])"

section \<open>Concrete instances\<close>

text \<open>
  An instance of the library functions for concrete inputs.  It agrees with the platform
  on the inputs used below: \<open>toLowerCase\<close> on Basic Latin and Cyrillic, \<open>JSON.parse\<close>
  and \<open>new URL\<close> on the listed strings.
\<close>

definition exampleKeyText :: jsstring where
  \<open>exampleKeyText = js ''{"key":"OPS-7"}''\<close>

definition exampleTransitionsText :: jsstring where
  \<open>exampleTransitionsText =
     js ''{"transitions":[{"id":1,"name":"Done"},{"id":2,"name":"In Review"}]}''\<close>

definition exampleParse :: "jsstring \<Rightarrow> json option" where
  \<open>exampleParse s =
     (if s = exampleKeyText then Some (JObj [(js ''key'', JStr (js ''OPS-7''))])
      else if s = js ''{}'' then Some (JObj [])
      else if s = exampleTransitionsText
      then Some (JObj [(js ''transitions'',
                        JArr [JObj [(js ''id'', JNum 1), (js ''name'', JStr (js ''Done''))],
                              JObj [(js ''id'', JNum 2),
                                    (js ''name'', JStr (js ''In Review''))]])])
      else None)\<close>

definition exampleURL :: "jsstring \<Rightarrow> url option" where
  "exampleURL s =
     (if s = js ''https://jira.example.com''
      then Some \<lparr> url_protocol = js ''https:'', url_hostname = js ''jira.example.com'',
                  url_port = [], url_pathname = js ''/'' \<rparr>
      else None)"

definition exampleBuiltins :: builtins where
  "exampleBuiltins =
     \<lparr> toLowerCase = lowerBasic,
       jsonParse = exampleParse,
       jsonStringify = (\<lambda>v. js ''{}''),
       jsonStringifyPretty = (\<lambda>v. js ''{}''),
       toStringJS = (\<lambda>v. js ''undefined''),
       parseURL = exampleURL,
       base64 = (\<lambda>s. s),
       pathJoin = (\<lambda>a b. a @ js ''/'' @ b) \<rparr>"

text \<open>
  A serialiser for the examples; it agrees with \<open>JSON.stringify\<close> on values built from
  objects, arrays, \<open>null\<close>, booleans, integers and strings of printable Basic Latin.
\<close>

fun showNat :: "nat \<Rightarrow> jsstring" where
  "showNat n = (if n < 10 then [48 + n] else showNat (n div 10) @ [48 + n mod 10])"

definition showInt :: "int \<Rightarrow> jsstring" where
  "showInt i = (if i < 0 then 45 # showNat (nat (- i)) else showNat (nat i))"

definition showString :: "jsstring \<Rightarrow> jsstring" where
  "showString s =
     [34] @ concat (map (\<lambda>c. if c = 34 \<or> c = 92 then [92, c] else [c]) s) @ [34]"

fun showJson :: "json \<Rightarrow> jsstring"
  and showItems :: "json list \<Rightarrow> jsstring"
  and showProps :: "(jsstring \<times> json) list \<Rightarrow> jsstring" where
  "showJson JUndefined = js ''null''"
| "showJson JNull = js ''null''"
| "showJson (JBool b) = (if b then js ''true'' else js ''false'')"
| "showJson (JNum i) = showInt i"
| "showJson (JStr s) = showString s"
| "showJson (JArr xs) = js ''['' @ showItems xs @ js '']''"
| "showJson (JObj ps) = js ''{'' @ showProps ps @ js ''}''"
| "showItems [] = []"
| "showItems [x] = showJson x"
| "showItems (x # y # xs) = showJson x @ js '','' @ showItems (y # xs)"
| "showProps [] = []"
| "showProps [(k, v)] = showString k @ js '':'' @ showJson v"
| "showProps ((k, v) # q # ps) =
     showString k @ js '':'' @ showJson v @ js '','' @ showProps (q # ps)"

definition serialisingBuiltins :: builtins where
  "serialisingBuiltins = exampleBuiltins \<lparr> jsonStringify := showJson \<rparr>"

definition exampleAssignText :: jsstring where
  \<open>exampleAssignText = js ''{"fields":{"assignee":{"name":"john"}}}''\<close>

text \<open>No variable is set.\<close>

definition emptyEnv :: env where
  "emptyEnv =
     \<lparr> JIRA_BASE_URL = None, JIRA_API_TOKEN = None, JIRA_PERSONAL_ACCESS_TOKEN = None,
       JIRA_USERNAME = None, JIRA_EMAIL = None, JIRA_CLOUD_ID = None, CLOUD_ID = None,
       GITHUB_TOKEN = None, GITHUB_REPO = None, GITHUB_DEFAULT_BRANCH = None,
       GITLAB_DEFAULT_BRANCH = None \<rparr>"

text \<open>Cloud with the identifier of the site in the environment, written in quotes.\<close>

definition cloudIdEnv :: env where
  \<open>cloudIdEnv = emptyEnv \<lparr> JIRA_CLOUD_ID := Some (js ''"site-1"'') \<rparr>\<close>

text \<open>Data Center with a personal access token only.\<close>

definition patEnv :: env where
  "patEnv = emptyEnv \<lparr> JIRA_BASE_URL := Some (js ''https://jira.example.com''),
                       JIRA_PERSONAL_ACCESS_TOKEN := Some (js ''abc'') \<rparr>"

text \<open>Data Center with a legacy token and a user name.\<close>

definition legacyEnv :: env where
  "legacyEnv = emptyEnv \<lparr> JIRA_BASE_URL := Some (js ''https://jira.example.com''),
                          JIRA_API_TOKEN := Some (js ''tok''),
                          JIRA_USERNAME := Some (js ''bob'') \<rparr>"

text \<open>
  Data Center with a personal access token, a user name, and a legacy token variable
  that holds one space.
\<close>

definition blankLegacyEnv :: env where
  "blankLegacyEnv = patEnv \<lparr> JIRA_API_TOKEN := Some (js '' ''),
                             JIRA_USERNAME := Some (js ''bob'') \<rparr>"

text \<open>
  A world in which the working directory is a git repository, every command fails, the
  tracker answers every request with the two transitions of the example, and the remote
  tool server answers with the same two transitions at the top level of its result.
\<close>

definition exampleTransitions :: json where
  "exampleTransitions =
     JObj [(js ''transitions'',
            JArr [JObj [(js ''id'', JNum 1), (js ''name'', JStr (js ''Done''))],
                  JObj [(js ''id'', JNum 2), (js ''name'', JStr (js ''In Review''))]])]"

definition exampleWorld :: world where
  \<open>exampleWorld =
     \<lparr> cwd = js ''/repo'',
       existsSync = (\<lambda>p. True),
       execResult = (\<lambda>tr command. Inl (Rejected 1)),
       httpsResponse = (\<lambda>tr req d.
          Inr (Some 200,
               exampleTransitionsText)),
       clientResult = (\<lambda>tr name args. Inr exampleTransitions) \<rparr>\<close>

section \<open>Evaluation rules\<close>

lemmas io_defs = ret_def throw_def lift_def andThen_def tryCatch_def attempt_def execAsync_def
  httpsRequest_def clientRequest_def

lemmas example_defs = exampleBuiltins_def exampleWorld_def emptyEnv_def patEnv_def
  blankLegacyEnv_def legacyEnv_def exampleParse_def exampleURL_def exampleTransitions_def
  exampleTransitionsText_def exampleKeyText_def lowerBasic_def
  lowerUnit_def

lemmas string_defs = js_def jsTrim_def dropTrailing_def isWhiteSpace_def startsWith_def
  endsWith_def trimHyphens_def isLowerAlnum_def

section \<open>Branch automation never raises\<close>

lemma tryCatch_swallow: "fst (tryCatch m (\<lambda>_. ret ()) tr) = Inr ()"
  by (cases "m tr") (auto simp: tryCatch_def ret_def split: sum.splits)

lemma fst_ret: "fst (ret v tr) = Inr v"
  by (simp add: ret_def)

lemma createGitLabBranch_completes:
  "fst (createGitLabBranch B W E issueKey customBranchName tr) = Inr ()"
  by (simp add: createGitLabBranch_def Let_def tryCatch_swallow fst_ret)

lemma createGitHubBranch_completes:
  "fst (createGitHubBranch B W E issueKey customBranchName tr) = Inr ()"
  by (simp add: createGitHubBranch_def tryCatch_swallow fst_ret split: option.splits prod.splits)

text \<open>
  Claim C2.  For every issue key, every custom branch name and every behaviour of the
  external calls (the oracle of the \<open>git\<close> commands and the oracle of the HTTPS requests
  are arbitrary, so every combination of successes and failures is covered), both
  \<open>createGitLabBranch\<close> (local git) and \<open>createGitHubBranch\<close> (hosting API) complete
  normally: the result is never an exception.
\<close>

theorem branch_automation_never_raises:
  "fst (createGitLabBranch B W E issueKey customBranchName tr) = Inr ()
   \<and> fst (createGitHubBranch B W E issueKey customBranchName tr) = Inr ()"
  by (simp add: createGitLabBranch_completes createGitHubBranch_completes)

theorem branch_automation_never_raises_witness:
  "fst (createGitLabBranch exampleBuiltins exampleWorld emptyEnv (JStr (js ''OPS-7''))
          JUndefined []) = Inr ()
   \<and> fst (createGitHubBranch exampleBuiltins exampleWorld emptyEnv (JStr (js ''OPS-7''))
            JUndefined []) = Inr ()"
  by (rule branch_automation_never_raises)

text \<open>
  When every command fails, the local strategy still runs each step in turn: fetch,
  checkout of the default branch and the attempt to create it, pull, the look-up of the
  target branch and its creation.
\<close>

lemma createGitLabBranch_all_commands_fail:
  "createGitLabBranch exampleBuiltins exampleWorld emptyEnv (JStr (js ''OPS-7'')) JUndefined [] =
     (Inr (),
      [Exec (js ''git fetch origin'') (js ''/repo''),
       Exec (js ''git checkout master'') (js ''/repo''),
       Exec (js ''git checkout -b master'') (js ''/repo''),
       Exec (js ''git pull origin master'') (js ''/repo''),
       Exec (js ''git branch --list ops-7'') (js ''/repo''),
       Exec (js ''git checkout -b ops-7'') (js ''/repo'')])"
  by (simp add: createGitLabBranch_def branchExists_def deriveBranchName_def io_defs
       example_defs orVar_def isSet_def strOf_def js_def Let_def)

section \<open>The shape of a sanitized branch name\<close>

lemma not_alnum_hyphen: "\<not> isLowerAlnum 45"
  by (simp add: isLowerAlnum_def)

lemma replaceRuns_head: "replaceRuns True s = [] \<or> hd (replaceRuns True s) \<noteq> 45"
  by (induction s) (auto simp: not_alnum_hyphen)

lemma wellSep_Cons:
  "wellSep (c # w) =
     ((isLowerAlnum c \<or> c = 45) \<and> (c = 45 \<longrightarrow> w = [] \<or> hd w \<noteq> 45) \<and> wellSep w)"
  by (cases w) auto

lemma wellSep_replaceRuns: "wellSep (replaceRuns b s)"
proof (induction s arbitrary: b)
  case Nil
  show ?case by simp
next
  case (Cons c cs)
  show ?case
    using Cons[of True] Cons[of False] replaceRuns_head[of cs]
    by (auto simp: wellSep_Cons not_alnum_hyphen)
qed

lemma wellSep_append: "wellSep (xs @ ys) \<Longrightarrow> wellSep xs \<and> wellSep ys"
  by (induction xs rule: wellSep.induct) (auto simp: wellSep_Cons)

lemma dropTrailing_decomp: "dropTrailing P xs @ rev (takeWhile P (rev xs)) = xs"
  unfolding dropTrailing_def
  by (metis rev_append rev_rev_ident takeWhile_dropWhile_id)

lemma wellSep_dropWhile: "wellSep xs \<Longrightarrow> wellSep (dropWhile P xs)"
  by (metis takeWhile_dropWhile_id wellSep_append)

lemma wellSep_dropTrailing: "wellSep xs \<Longrightarrow> wellSep (dropTrailing P xs)"
  by (metis dropTrailing_decomp wellSep_append)

lemma wellSep_trimHyphens: "wellSep xs \<Longrightarrow> wellSep (trimHyphens xs)"
  by (simp add: trimHyphens_def wellSep_dropWhile wellSep_dropTrailing)

lemma wellSep_take: "wellSep w \<Longrightarrow> wellSep (take n w)"
  by (metis append_take_drop_id wellSep_append)

lemma wellSep_chars: "wellSep w \<Longrightarrow> c \<in> set w \<Longrightarrow> isLowerAlnum c \<or> c = 45"
  by (induction w rule: wellSep.induct) auto

lemma dropTrailing_last: "dropTrailing P xs \<noteq> [] \<Longrightarrow> \<not> P (last (dropTrailing P xs))"
  unfolding dropTrailing_def
  by (metis (no_types, lifting) hd_dropWhile last_rev rev_is_Nil_conv)

lemma dropTrailing_hd: "dropTrailing P xs \<noteq> [] \<Longrightarrow> hd (dropTrailing P xs) = hd xs"
  by (metis dropTrailing_decomp hd_append2)

lemma trimHyphens_ends:
  assumes "trimHyphens s \<noteq> []"
  shows "hd (trimHyphens s) \<noteq> 45 \<and> last (trimHyphens s) \<noteq> 45"
proof -
  let ?v = "dropWhile (\<lambda>c. c = 45) s"
  have ne: "?v \<noteq> []"
  proof
    assume "?v = []"
    then have "trimHyphens s = dropTrailing (\<lambda>c. c = 45) []"
      by (simp only: trimHyphens_def)
    then have "trimHyphens s = []" by (simp add: dropTrailing_def)
    with assms show False by simp
  qed
  have "hd ?v \<noteq> 45" using ne hd_dropWhile[of "\<lambda>c. c = 45" s] by simp
  moreover have "hd (trimHyphens s) = hd ?v"
    using assms unfolding trimHyphens_def by (rule dropTrailing_hd)
  moreover have "last (trimHyphens s) \<noteq> 45"
    using assms dropTrailing_last[of "\<lambda>c. c = 45" ?v] unfolding trimHyphens_def by simp
  ultimately show ?thesis by simp
qed

lemma trimHyphens_Nil: "(trimHyphens w = []) = (\<forall>c\<in>set w. c = 45)"
proof (cases "dropWhile (\<lambda>c. c = 45) w = []")
  case True
  then have "trimHyphens w = dropTrailing (\<lambda>c. c = 45) []"
    by (simp only: trimHyphens_def)
  then have "trimHyphens w = []" by (simp add: dropTrailing_def)
  moreover have "\<forall>c\<in>set w. c = 45" using True by simp
  ultimately show ?thesis by simp
next
  case False
  then have h: "hd (dropWhile (\<lambda>c. c = 45) w) \<noteq> 45"
    using hd_dropWhile[of "\<lambda>c. c = 45" w] by simp
  have "hd (dropWhile (\<lambda>c. c = 45) w) \<in> set (dropWhile (\<lambda>c. c = 45) w)"
    using False by simp
  then have "trimHyphens w \<noteq> []" using h
    by (auto simp: trimHyphens_def dropTrailing_def)
  moreover have "\<not> (\<forall>c\<in>set w. c = 45)" using False by simp
  ultimately show ?thesis by simp
qed

text \<open>A string of the invariant that neither starts nor ends with a hyphen matches.\<close>

lemma branchRe_wellSep:
  "wellSep u \<Longrightarrow> u \<noteq> [] \<Longrightarrow> last u \<noteq> 45 \<Longrightarrow> (\<not> b \<longrightarrow> hd u \<noteq> 45) \<Longrightarrow> branchRe b u"
proof (induction u arbitrary: b)
  case Nil
  then show ?case by simp
next
  case (Cons c cs)
  show ?case
  proof (cases "cs = []")
    case True
    with Cons.prems show ?thesis by (auto simp: wellSep_Cons)
  next
    case False
    with Cons.prems have ws: "wellSep cs" and l: "last cs \<noteq> 45"
      by (auto simp: wellSep_Cons)
    show ?thesis
    proof (cases "isLowerAlnum c")
      case True
      then show ?thesis using Cons.IH[of True, OF ws False l] by simp
    next
      case nal: False
      with Cons.prems have c45: "c = 45" and b: "b" and h: "hd cs \<noteq> 45"
        using False by (auto simp: wellSep_Cons)
      show ?thesis using Cons.IH[of False, OF ws False l] h nal c45 b by simp
    qed
  qed
qed

lemma clean_shape:
  "trimHyphens (replaceRuns False s) = [] \<or> matchesBranchRegex (trimHyphens (replaceRuns False s))"
proof (cases "trimHyphens (replaceRuns False s) = []")
  case True
  then show ?thesis by simp
next
  case False
  have "wellSep (trimHyphens (replaceRuns False s))"
    by (rule wellSep_trimHyphens[OF wellSep_replaceRuns])
  then show ?thesis
    using False trimHyphens_ends[OF False]
      branchRe_wellSep[of "trimHyphens (replaceRuns False s)" False]
    by (simp add: matchesBranchRegex_def)
qed

lemma filter_replaceRuns: "filter isLowerAlnum (replaceRuns b s) = filter isLowerAlnum s"
  by (induction s arbitrary: b) (auto simp: not_alnum_hyphen)

lemma clean_empty:
  "(trimHyphens (replaceRuns False s) = []) = (\<forall>c\<in>set s. \<not> isLowerAlnum c)"
proof -
  let ?w = "replaceRuns False s"
  have "(\<forall>c\<in>set ?w. c = 45) = (filter isLowerAlnum ?w = [])"
    using wellSep_chars[OF wellSep_replaceRuns[of False s]]
    by (auto simp: filter_empty_conv not_alnum_hyphen)
  also have "\<dots> = (\<forall>c\<in>set s. \<not> isLowerAlnum c)"
    by (simp add: filter_replaceRuns filter_empty_conv)
  finally show ?thesis by (simp add: trimHyphens_Nil)
qed

lemma take_100_Nil: "(take 100 w = []) = (w = [])"
  by (cases w) auto

text \<open>The facts about the cleaning steps that both revisions of the function share.\<close>

lemma clean_facts:
  fixes s :: jsstring
  defines "u \<equiv> trimHyphens (replaceRuns False s)"
  shows "length (take 100 u) \<le> 100"
    and "\<forall>c\<in>set (take 100 u). isLowerAlnum c \<or> c = 45"
    and "(take 100 u = []) = (\<forall>c\<in>set s. \<not> isLowerAlnum c)"
    and "length u \<le> 100 \<longrightarrow> take 100 u = [] \<or> matchesBranchRegex (take 100 u)"
proof -
  show "length (take 100 u) \<le> 100" by simp
  have ws: "wellSep (take 100 u)"
    unfolding u_def by (intro wellSep_take wellSep_trimHyphens wellSep_replaceRuns)
  show "\<forall>c\<in>set (take 100 u). isLowerAlnum c \<or> c = 45"
    using wellSep_chars[OF ws] by blast
  show "(take 100 u = []) = (\<forall>c\<in>set s. \<not> isLowerAlnum c)"
    unfolding u_def by (simp only: take_100_Nil clean_empty)
  show "length u \<le> 100 \<longrightarrow> take 100 u = [] \<or> matchesBranchRegex (take 100 u)"
    using clean_shape[of s] by (auto simp: u_def)
qed

lemma wellSep_snoc_hyphen: "wellSep (xs @ [45]) \<Longrightarrow> xs \<noteq> [] \<Longrightarrow> last xs \<noteq> 45"
proof (induction xs)
  case Nil
  then show ?case by simp
next
  case (Cons c cs)
  show ?case
  proof (cases "cs = []")
    case True
    with Cons.prems show ?thesis by (simp add: wellSep_Cons)
  next
    case False
    with Cons show ?thesis by (simp add: wellSep_Cons)
  qed
qed

text \<open>
  Cutting a trimmed string at 100 code units keeps its first code unit and the
  invariant, so the result still matches unless the cut falls right after a hyphen.
\<close>

lemma clean_truncated:
  fixes s :: jsstring
  defines "p \<equiv> take 100 (trimHyphens (replaceRuns False s))"
  shows "p = [] \<or> matchesBranchRegex p
         \<or> (length p = 100 \<and> last p = 45 \<and> matchesBranchRegex (butlast p))"
proof (cases "p = []")
  case True
  then show ?thesis by simp
next
  case ne: False
  let ?u = "trimHyphens (replaceRuns False s)"
  have une: "?u \<noteq> []" using ne unfolding p_def by auto
  have ws: "wellSep p"
    unfolding p_def by (intro wellSep_take wellSep_trimHyphens wellSep_replaceRuns)
  have "hd p = hd ?u" unfolding p_def by (simp add: hd_take)
  then have hd: "hd p \<noteq> 45" using trimHyphens_ends[OF une] by simp
  show ?thesis
  proof (cases "last p = 45")
    case False
    then have "branchRe False p" using branchRe_wellSep[OF ws ne] hd by simp
    then show ?thesis by (simp add: matchesBranchRegex_def)
  next
    case True
    have "p \<noteq> ?u" using True trimHyphens_ends[OF une] by auto
    then have "\<not> length ?u \<le> 100" unfolding p_def by auto
    then have len: "length p = 100" unfolding p_def by simp
    have dec: "p = butlast p @ [45]" using ne True by (metis append_butlast_last_id)
    have bne: "butlast p \<noteq> []" using len by (cases p) auto
    have wsb: "wellSep (butlast p)" using ws dec wellSep_append by metis
    have lb: "last (butlast p) \<noteq> 45"
      using wellSep_snoc_hyphen[of "butlast p"] ws dec bne by metis
    have hb: "hd (butlast p) \<noteq> 45" using hd bne dec by (metis hd_append2)
    have "branchRe False (butlast p)" using branchRe_wellSep[OF wsb bne lb] hb by simp
    then show ?thesis using len True by (simp add: matchesBranchRegex_def)
  qed
qed

text \<open>
  Claim C5, as amended.  For every input string and whatever \<open>toLowerCase\<close> computes,
  the output of \<open>sanitizeBranchName\<close> has at most 100 code units, all of them in
  \<open>[a-z0-9-]\<close>.  It is empty exactly when the lower-cased input has no code unit in
  \<open>[a-z0-9]\<close>.  Otherwise it matches \<open>^[a-z0-9]+(-[a-z0-9]+)*$\<close>, or it has exactly
  100 code units and is such a match followed by one hyphen; the latter needs a trimmed
  string of more than 100 code units.  The same holds for the revision that
  transliterates first.
\<close>

theorem sanitizeBranchName_shape:
  "length (sanitizeBranchName B name) \<le> 100
   \<and> (\<forall>c\<in>set (sanitizeBranchName B name). isLowerAlnum c \<or> c = 45)
   \<and> ((sanitizeBranchName B name = []) = (\<forall>c\<in>set (toLowerCase B name). \<not> isLowerAlnum c))
   \<and> (sanitizeBranchName B name = []
       \<or> matchesBranchRegex (sanitizeBranchName B name)
       \<or> (length (sanitizeBranchName B name) = 100
           \<and> last (sanitizeBranchName B name) = 45
           \<and> matchesBranchRegex (butlast (sanitizeBranchName B name))))
   \<and> (length (trimHyphens (replaceRuns False (toLowerCase B name))) \<le> 100 \<longrightarrow>
        sanitizeBranchName B name = [] \<or> matchesBranchRegex (sanitizeBranchName B name))
   \<and> length (sanitizeBranchName_translit B name) \<le> 100
   \<and> (\<forall>c\<in>set (sanitizeBranchName_translit B name). isLowerAlnum c \<or> c = 45)
   \<and> (sanitizeBranchName_translit B name = []
       \<or> matchesBranchRegex (sanitizeBranchName_translit B name)
       \<or> (length (sanitizeBranchName_translit B name) = 100
           \<and> last (sanitizeBranchName_translit B name) = 45
           \<and> matchesBranchRegex (butlast (sanitizeBranchName_translit B name))))
   \<and> (length (trimHyphens (replaceRuns False (toLowerCase B (transliterateToEnglish name))))
         \<le> 100 \<longrightarrow>
        sanitizeBranchName_translit B name = []
        \<or> matchesBranchRegex (sanitizeBranchName_translit B name))"
  unfolding sanitizeBranchName_def sanitizeBranchName_translit_def
  using clean_facts[of "toLowerCase B name"]
    clean_facts[of "toLowerCase B (transliterateToEnglish name)"]
    clean_truncated[of "toLowerCase B name"]
    clean_truncated[of "toLowerCase B (transliterateToEnglish name)"]
  by blast

lemmas sanitize_eval = sanitizeBranchName_def sanitizeBranchName_translit_def
  transliterateToEnglish_def transliterateChar_def transliterationMap_def
  matchesBranchRegex_def string_defs example_defs

theorem sanitizeBranchName_shape_witness:
  "matchesBranchRegex (sanitizeBranchName exampleBuiltins (js ''Fix Login_Bug!! v2''))"
proof -
  have v: "sanitizeBranchName exampleBuiltins (js ''Fix Login_Bug!! v2'') = js ''fix-login-bug-v2''"
    by (simp add: sanitize_eval)
  have l: "length (trimHyphens (replaceRuns False
             (toLowerCase exampleBuiltins (js ''Fix Login_Bug!! v2'')))) \<le> 100"
    by (simp add: sanitize_eval)
  have n: "sanitizeBranchName exampleBuiltins (js ''Fix Login_Bug!! v2'') \<noteq> []"
    unfolding v by (simp add: js_def)
  from sanitizeBranchName_shape[of exampleBuiltins "js ''Fix Login_Bug!! v2''"] l n
  show ?thesis by blast
qed

text \<open>
  The claim as stated fails: an input without letters or digits, such as \<open>!!!\<close>, gives the
  empty string, which the regular expression does not match.
\<close>

theorem sanitizeBranchName_empty_counterexample:
  "\<not> (matchesBranchRegex (sanitizeBranchName exampleBuiltins (js ''!!!''))
      \<and> length (sanitizeBranchName exampleBuiltins (js ''!!!'')) \<le> 100)"
  by (simp add: sanitize_eval)

section \<open>Authentication of the REST adapter\<close>

lemma not_blank_isSet: "\<not> isBlank v \<Longrightarrow> isSet v"
  by (auto simp: isBlank_def isSet_def split: option.splits)

lemma datacenter_baseUrl: "getJiraType E = Datacenter \<Longrightarrow> \<not> isBlank (JIRA_BASE_URL E)"
  by (simp add: getJiraType_def split: if_splits)

lemma snd_httpsRequest:
  "\<exists>w. snd (httpsRequest W req d tr) = tr @ [Https req w]"
  by (simp add: httpsRequest_def Let_def)

lemma snd_andThen_pure:
  assumes "\<And>v t. snd (f v t) = t"
  shows "snd (andThen m f tr) = snd (m tr)"
  using assms by (cases "m tr") (auto simp: andThen_def split: sum.splits)

lemma snd_throw: "throw e tr = (Inl e, tr)"
  by (simp add: throw_def)

lemma callJiraDataCenterAPI_unfold:
  assumes "\<not> isBlank (JIRA_BASE_URL E)"
    and "\<not> isBlank (orVar (JIRA_API_TOKEN E) (JIRA_PERSONAL_ACCESS_TOKEN E))"
    and "(isSet (JIRA_PERSONAL_ACCESS_TOKEN E) \<and> \<not> isSet (JIRA_API_TOKEN E))
         \<or> \<not> isBlank (orVar (JIRA_USERNAME E) (JIRA_EMAIL E))"
    and "parseURL B (strOf (JIRA_BASE_URL E)) = Some u"
    and "authHeader B E = Inr auth"
  shows "callJiraDataCenterAPI B W E endpoint meth body =
           andThen (httpsRequest W (dcRequest B u endpoint meth auth)
                      (if truthy body then Some (jsonStringify B body) else None))
             (\<lambda>response.
                 if response = [] \<or> jsTrim response = [] then ret (JObj [])
                 else (case jsonParse B response of Some v \<Rightarrow> ret v | None \<Rightarrow> ret (JObj [])))"
  using assms unfolding callJiraDataCenterAPI_def Let_def dcRequest_def
  by auto

lemma callJiraDataCenterAPI_request:
  assumes "\<not> isBlank (JIRA_BASE_URL E)"
    and "\<not> isBlank (orVar (JIRA_API_TOKEN E) (JIRA_PERSONAL_ACCESS_TOKEN E))"
    and "(isSet (JIRA_PERSONAL_ACCESS_TOKEN E) \<and> \<not> isSet (JIRA_API_TOKEN E))
         \<or> \<not> isBlank (orVar (JIRA_USERNAME E) (JIRA_EMAIL E))"
    and "parseURL B (strOf (JIRA_BASE_URL E)) = Some u"
    and "authHeader B E = Inr auth"
  shows "\<exists>w. snd (callJiraDataCenterAPI B W E endpoint meth body tr)
               = tr @ [Https (dcRequest B u endpoint meth auth) w]"
proof -
  have pure: "\<And>v t. snd ((\<lambda>response.
                 if response = [] \<or> jsTrim response = [] then ret (JObj [])
                 else (case jsonParse B response of Some v \<Rightarrow> ret v | None \<Rightarrow> ret (JObj []))) v t) = t"
    by (simp add: ret_def split: option.splits)
  show ?thesis
    unfolding callJiraDataCenterAPI_unfold[OF assms]
    by (simp only: snd_andThen_pure[OF pure] snd_httpsRequest)
qed

lemma authorizationOf_dcRequest: "authorizationOf (dcRequest B u endpoint meth auth) = Some auth"
  by (simp add: authorizationOf_def dcRequest_def)

lemma callJiraDataCenterAPI_no_url:
  assumes "\<not> isBlank (JIRA_BASE_URL E)"
    and "\<not> isBlank (orVar (JIRA_API_TOKEN E) (JIRA_PERSONAL_ACCESS_TOKEN E))"
    and "(isSet (JIRA_PERSONAL_ACCESS_TOKEN E) \<and> \<not> isSet (JIRA_API_TOKEN E))
         \<or> \<not> isBlank (orVar (JIRA_USERNAME E) (JIRA_EMAIL E))"
    and "parseURL B (strOf (JIRA_BASE_URL E)) = None"
  shows "callJiraDataCenterAPI B W E endpoint meth body tr = (Inl TypeError, tr)"
  using assms unfolding callJiraDataCenterAPI_def Let_def
  by (auto simp: throw_def)

lemma authHeader_bearer:
  assumes "\<not> isBlank (JIRA_PERSONAL_ACCESS_TOKEN E)" and "\<not> isSet (JIRA_API_TOKEN E)"
  shows "authHeader B E = Inr (js ''Bearer '' @ jsTrim (strOf (JIRA_PERSONAL_ACCESS_TOKEN E)))"
  using assms not_blank_isSet[OF assms(1)]
  by (simp add: authHeader_def Let_def orVar_def)

lemma authHeader_basic:
  assumes "\<not> isBlank (JIRA_API_TOKEN E)"
    and "\<not> isBlank (orVar (JIRA_USERNAME E) (JIRA_EMAIL E))"
  shows "authHeader B E =
           Inr (js ''Basic '' @ base64 B (jsTrim (strOf (orVar (JIRA_EMAIL E) (JIRA_USERNAME E)))
                  @ js '':'' @ jsTrim (strOf (JIRA_API_TOKEN E))))"
  using not_blank_isSet[OF assms(1)] not_blank_isSet[OF assms(2)]
  by (auto simp: authHeader_def Let_def orVar_def split: if_splits)

lemma callJiraDataCenterAPI_config_error:
  assumes "\<not> (\<not> isBlank (JIRA_PERSONAL_ACCESS_TOKEN E) \<and> \<not> isSet (JIRA_API_TOKEN E))"
    and "\<not> (\<not> isBlank (JIRA_API_TOKEN E) \<and> \<not> isBlank (orVar (JIRA_USERNAME E) (JIRA_EMAIL E)))"
  shows "\<exists>msg. callJiraDataCenterAPI B W E endpoint meth body tr = (Inl (Error msg), tr)"
proof (cases "isSet (JIRA_API_TOKEN E)")
  case True
  then have tok: "orVar (JIRA_API_TOKEN E) (JIRA_PERSONAL_ACCESS_TOKEN E) = JIRA_API_TOKEN E"
    by (simp add: orVar_def)
  from assms(2) consider "isBlank (JIRA_API_TOKEN E)"
    | "\<not> isBlank (JIRA_API_TOKEN E)" "isBlank (orVar (JIRA_USERNAME E) (JIRA_EMAIL E))"
    by blast
  then show ?thesis
  proof cases
    case 1
    then show ?thesis unfolding callJiraDataCenterAPI_def Let_def tok
      by (simp add: throw_def)
  next
    case 2
    then show ?thesis using True unfolding callJiraDataCenterAPI_def Let_def tok
      by (simp add: throw_def)
  qed
next
  case False
  then have tok: "orVar (JIRA_API_TOKEN E) (JIRA_PERSONAL_ACCESS_TOKEN E) = JIRA_PERSONAL_ACCESS_TOKEN E"
    by (simp add: orVar_def)
  have "isBlank (JIRA_PERSONAL_ACCESS_TOKEN E)" using assms(1) False by simp
  then show ?thesis unfolding callJiraDataCenterAPI_def Let_def tok
    by (simp add: throw_def)
qed

lemma userConfigured_both:
  assumes "userConfigured E"
  shows "\<not> isBlank (orVar (JIRA_USERNAME E) (JIRA_EMAIL E))"
    and "\<not> isBlank (orVar (JIRA_EMAIL E) (JIRA_USERNAME E))"
  using assms by (auto simp: userConfigured_def orVar_def)

lemma not_blank_trim: "\<not> isBlank v \<Longrightarrow> jsTrim (strOf v) \<noteq> []"
  by (auto simp: isBlank_def strOf_def split: option.splits)

lemma not_set_blank: "\<not> isSet v \<Longrightarrow> isBlank v"
  by (auto simp: isBlank_def isSet_def split: option.splits)

lemma callJiraDataCenterAPI_no_credentials:
  assumes "isBlank (orVar (JIRA_API_TOKEN E) (JIRA_PERSONAL_ACCESS_TOKEN E))
           \<or> (isSet (JIRA_API_TOKEN E) \<and> isBlank (JIRA_USERNAME E) \<and> isBlank (JIRA_EMAIL E))"
  shows "\<exists>msg. callJiraDataCenterAPI B W E endpoint meth body tr = (Inl (Error msg), tr)"
proof (rule callJiraDataCenterAPI_config_error)
  show "\<not> (\<not> isBlank (JIRA_PERSONAL_ACCESS_TOKEN E) \<and> \<not> isSet (JIRA_API_TOKEN E))"
    using assms by (auto simp: orVar_def)
  show "\<not> (\<not> isBlank (JIRA_API_TOKEN E) \<and> \<not> isBlank (orVar (JIRA_USERNAME E) (JIRA_EMAIL E)))"
  proof (cases "isSet (JIRA_API_TOKEN E)")
    case True
    then show ?thesis using assms by (auto simp: orVar_def)
  next
    case False
    then show ?thesis using not_set_blank by blast
  qed
qed

text \<open>
  Claim C1, as amended.  In Data Center mode the authentication of every call is a
  function of the environment.  The effective token is \<open>JIRA_API_TOKEN\<close> when that is set
  and non-empty, otherwise \<open>JIRA_PERSONAL_ACCESS_TOKEN\<close>.
  (1) When the personal access token is set and not blank and the legacy token is unset
  or empty, the call either fails on an unparsable base URL without sending anything, or
  sends exactly one request, whose \<open>Authorization\<close> header is \<open>Bearer\<close> and the trimmed
  token.
  (2) When the legacy token is set and not blank and a user is configured (at least one
  of \<open>JIRA_USERNAME\<close> and \<open>JIRA_EMAIL\<close> is set and neither is set to white space),
  likewise with the header \<open>Basic base64(user:token)\<close>, where the user is the e-mail when
  that is set and the user name otherwise, both parts trimmed and the user not empty.
  (3) When the effective token is missing or blank, in particular whenever the legacy
  token is set to white space, or when the legacy token is set and neither user variable
  holds more than white space, the call fails with a configuration error and sends
  nothing.
  The three cases exclude each other, so the schemes are never mixed.  Nothing is said
  of a configuration in which one user variable is set to white space and the other
  holds a name.
\<close>

theorem datacenter_auth_resolution:
  assumes dc: "getJiraType E = Datacenter"
  shows
    "(\<not> isBlank (JIRA_PERSONAL_ACCESS_TOKEN E) \<and> \<not> isSet (JIRA_API_TOKEN E) \<longrightarrow>
        (case parseURL B (strOf (JIRA_BASE_URL E)) of
           None \<Rightarrow> callJiraDataCenterAPI B W E endpoint meth body tr = (Inl TypeError, tr)
         | Some u \<Rightarrow>
             (\<exists>req w. snd (callJiraDataCenterAPI B W E endpoint meth body tr) = tr @ [Https req w]
                \<and> authorizationOf req =
                    Some (js ''Bearer '' @ jsTrim (strOf (JIRA_PERSONAL_ACCESS_TOKEN E))))))
     \<and> (\<not> isBlank (JIRA_API_TOKEN E) \<and> userConfigured E \<longrightarrow>
        jsTrim (strOf (orVar (JIRA_EMAIL E) (JIRA_USERNAME E))) \<noteq> []
        \<and> (case parseURL B (strOf (JIRA_BASE_URL E)) of
             None \<Rightarrow> callJiraDataCenterAPI B W E endpoint meth body tr = (Inl TypeError, tr)
           | Some u \<Rightarrow>
               (\<exists>req w. snd (callJiraDataCenterAPI B W E endpoint meth body tr) = tr @ [Https req w]
                  \<and> authorizationOf req =
                      Some (js ''Basic '' @
                            base64 B (jsTrim (strOf (orVar (JIRA_EMAIL E) (JIRA_USERNAME E)))
                                       @ js '':'' @ jsTrim (strOf (JIRA_API_TOKEN E)))))))
     \<and> (isBlank (orVar (JIRA_API_TOKEN E) (JIRA_PERSONAL_ACCESS_TOKEN E))
         \<or> (isSet (JIRA_API_TOKEN E) \<and> isBlank (JIRA_USERNAME E) \<and> isBlank (JIRA_EMAIL E))
        \<longrightarrow> (\<exists>msg. callJiraDataCenterAPI B W E endpoint meth body tr = (Inl (Error msg), tr)))"
proof (intro conjI impI)
  assume a: "\<not> isBlank (JIRA_PERSONAL_ACCESS_TOKEN E) \<and> \<not> isSet (JIRA_API_TOKEN E)"
  then have tok: "\<not> isBlank (orVar (JIRA_API_TOKEN E) (JIRA_PERSONAL_ACCESS_TOKEN E))"
    by (simp add: orVar_def)
  have pat: "(isSet (JIRA_PERSONAL_ACCESS_TOKEN E) \<and> \<not> isSet (JIRA_API_TOKEN E))
         \<or> \<not> isBlank (orVar (JIRA_USERNAME E) (JIRA_EMAIL E))"
    using a not_blank_isSet by blast
  have hdr: "authHeader B E = Inr (js ''Bearer '' @ jsTrim (strOf (JIRA_PERSONAL_ACCESS_TOKEN E)))"
    using a by (simp add: authHeader_bearer)
  show "case parseURL B (strOf (JIRA_BASE_URL E)) of
           None \<Rightarrow> callJiraDataCenterAPI B W E endpoint meth body tr = (Inl TypeError, tr)
         | Some u \<Rightarrow>
             (\<exists>req w. snd (callJiraDataCenterAPI B W E endpoint meth body tr) = tr @ [Https req w]
                \<and> authorizationOf req =
                    Some (js ''Bearer '' @ jsTrim (strOf (JIRA_PERSONAL_ACCESS_TOKEN E))))"
  proof (cases "parseURL B (strOf (JIRA_BASE_URL E))")
    case None
    then show ?thesis
      using callJiraDataCenterAPI_no_url[OF datacenter_baseUrl[OF dc] tok pat None] by simp
  next
    case (Some u)
    from callJiraDataCenterAPI_request[OF datacenter_baseUrl[OF dc] tok pat Some hdr,
        of W endpoint meth body tr]
    show ?thesis unfolding Some using authorizationOf_dcRequest by fastforce
  qed
next
  assume b: "\<not> isBlank (JIRA_API_TOKEN E) \<and> userConfigured E"
  then show "jsTrim (strOf (orVar (JIRA_EMAIL E) (JIRA_USERNAME E))) \<noteq> []"
    using userConfigured_both(2) not_blank_trim by blast
next
  assume b: "\<not> isBlank (JIRA_API_TOKEN E) \<and> userConfigured E"
  then have tok: "\<not> isBlank (orVar (JIRA_API_TOKEN E) (JIRA_PERSONAL_ACCESS_TOKEN E))"
    using not_blank_isSet[of "JIRA_API_TOKEN E"] by (simp add: orVar_def)
  have guard: "\<not> isBlank (orVar (JIRA_USERNAME E) (JIRA_EMAIL E))"
    using b userConfigured_both(1) by blast
  have usr: "(isSet (JIRA_PERSONAL_ACCESS_TOKEN E) \<and> \<not> isSet (JIRA_API_TOKEN E))
         \<or> \<not> isBlank (orVar (JIRA_USERNAME E) (JIRA_EMAIL E))"
    using guard by blast
  have hdr: "authHeader B E =
           Inr (js ''Basic '' @ base64 B (jsTrim (strOf (orVar (JIRA_EMAIL E) (JIRA_USERNAME E)))
                  @ js '':'' @ jsTrim (strOf (JIRA_API_TOKEN E))))"
    using b guard by (simp add: authHeader_basic)
  show "case parseURL B (strOf (JIRA_BASE_URL E)) of
           None \<Rightarrow> callJiraDataCenterAPI B W E endpoint meth body tr = (Inl TypeError, tr)
         | Some u \<Rightarrow>
             (\<exists>req w. snd (callJiraDataCenterAPI B W E endpoint meth body tr) = tr @ [Https req w]
                \<and> authorizationOf req =
                    Some (js ''Basic '' @
                          base64 B (jsTrim (strOf (orVar (JIRA_EMAIL E) (JIRA_USERNAME E)))
                                     @ js '':'' @ jsTrim (strOf (JIRA_API_TOKEN E)))))"
  proof (cases "parseURL B (strOf (JIRA_BASE_URL E))")
    case None
    then show ?thesis
      using callJiraDataCenterAPI_no_url[OF datacenter_baseUrl[OF dc] tok usr None] by simp
  next
    case (Some u)
    from callJiraDataCenterAPI_request[OF datacenter_baseUrl[OF dc] tok usr Some hdr,
        of W endpoint meth body tr]
    show ?thesis unfolding Some using authorizationOf_dcRequest by fastforce
  qed
next
  assume "isBlank (orVar (JIRA_API_TOKEN E) (JIRA_PERSONAL_ACCESS_TOKEN E))
         \<or> (isSet (JIRA_API_TOKEN E) \<and> isBlank (JIRA_USERNAME E) \<and> isBlank (JIRA_EMAIL E))"
  then show "\<exists>msg. callJiraDataCenterAPI B W E endpoint meth body tr = (Inl (Error msg), tr)"
    by (rule callJiraDataCenterAPI_no_credentials)
qed

lemmas env_eval = example_defs string_defs isBlank_def isSet_def orVar_def strOf_def
  getJiraType_def

theorem datacenter_auth_resolution_witness:
  "(\<exists>req w. snd (callJiraDataCenterAPI exampleBuiltins exampleWorld patEnv (js ''serverInfo'')
                   (js ''GET'') JUndefined []) = [Https req w]
      \<and> authorizationOf req = Some (js ''Bearer abc''))
   \<and> (\<exists>req w. snd (callJiraDataCenterAPI exampleBuiltins exampleWorld legacyEnv (js ''serverInfo'')
                   (js ''GET'') JUndefined []) = [Https req w]
      \<and> authorizationOf req = Some (js ''Basic '' @ base64 exampleBuiltins (js ''bob:tok'')))"
proof -
  have dc: "getJiraType patEnv = Datacenter" by (simp add: env_eval)
  have a: "\<not> isBlank (JIRA_PERSONAL_ACCESS_TOKEN patEnv) \<and> \<not> isSet (JIRA_API_TOKEN patEnv)"
    by (simp add: env_eval)
  have u: "parseURL exampleBuiltins (strOf (JIRA_BASE_URL patEnv))
             = Some \<lparr> url_protocol = js ''https:'', url_hostname = js ''jira.example.com'',
                      url_port = [], url_pathname = js ''/'' \<rparr>"
    by (simp add: env_eval)
  have t: "js ''Bearer '' @ jsTrim (strOf (JIRA_PERSONAL_ACCESS_TOKEN patEnv)) = js ''Bearer abc''"
    by (simp add: env_eval)
  from datacenter_auth_resolution[OF dc, of exampleBuiltins exampleWorld "js ''serverInfo''"
      "js ''GET''" JUndefined "[]"] a
  have bearer: "\<exists>req w. snd (callJiraDataCenterAPI exampleBuiltins exampleWorld patEnv
                   (js ''serverInfo'') (js ''GET'') JUndefined []) = [Https req w]
      \<and> authorizationOf req = Some (js ''Bearer abc'')"
    unfolding u t by simp
  have dc': "getJiraType legacyEnv = Datacenter" by (simp add: env_eval)
  have b: "\<not> isBlank (JIRA_API_TOKEN legacyEnv) \<and> userConfigured legacyEnv"
    by (simp add: userConfigured_def env_eval)
  have u': "parseURL exampleBuiltins (strOf (JIRA_BASE_URL legacyEnv))
             = Some \<lparr> url_protocol = js ''https:'', url_hostname = js ''jira.example.com'',
                      url_port = [], url_pathname = js ''/'' \<rparr>"
    by (simp add: env_eval)
  have t': "jsTrim (strOf (orVar (JIRA_EMAIL legacyEnv) (JIRA_USERNAME legacyEnv)))
              @ js '':'' @ jsTrim (strOf (JIRA_API_TOKEN legacyEnv)) = js ''bob:tok''"
    by (simp add: env_eval)
  from datacenter_auth_resolution[OF dc', of exampleBuiltins exampleWorld "js ''serverInfo''"
      "js ''GET''" JUndefined "[]"] b
  have basic: "\<exists>req w. snd (callJiraDataCenterAPI exampleBuiltins exampleWorld legacyEnv
                   (js ''serverInfo'') (js ''GET'') JUndefined []) = [Https req w]
      \<and> authorizationOf req = Some (js ''Basic '' @ base64 exampleBuiltins (js ''bob:tok''))"
    unfolding u' t' by simp
  from bearer basic show ?thesis by blast
qed

text \<open>
  The claim as stated fails where the legacy token variable is set to white space.  A
  personal access token and a user name are set; read with ``configured'' as ``set'',
  the specification asks for the Basic scheme, and read as ``set and not blank'' it asks
  for the Bearer scheme.  The call fails with a configuration error and sends nothing.
\<close>

theorem datacenter_auth_blank_legacy_counterexample:
  "spec_authScheme isSet blankLegacyEnv = Some BasicScheme
   \<and> spec_authScheme (\<lambda>v. \<not> isBlank v) blankLegacyEnv = Some BearerScheme
   \<and> callJiraDataCenterAPI exampleBuiltins exampleWorld blankLegacyEnv (js ''serverInfo'')
        (js ''GET'') JUndefined [] = (Inl (Error msgTokenRequired), [])"
  by (simp add: spec_authScheme_def callJiraDataCenterAPI_def Let_def throw_def env_eval)

text \<open>
  Where one of the two user variables is set to white space and the other is not, the
  guard, which reads \<open>JIRA_USERNAME || JIRA_EMAIL\<close>, and the header, which reads
  \<open>JIRA_EMAIL || JIRA_USERNAME\<close>, disagree.  With a blank e-mail beside a user name the
  guard passes and the header is built with an empty user.
\<close>

lemma authHeader_blank_email:
  "authHeader B
     (emptyEnv \<lparr> JIRA_BASE_URL := Some (js ''https://jira.example.com''),
                 JIRA_API_TOKEN := Some (js ''tok''), JIRA_USERNAME := Some (js ''bob''),
                 JIRA_EMAIL := Some (js '' '') \<rparr>)
   = Inr (js ''Basic '' @ base64 B (js '':tok''))"
  by (simp add: authHeader_def Let_def env_eval)

section \<open>The review transition\<close>

lemma httpMethod_dcRequest: "httpMethod (dcRequest B u endpoint meth auth) = meth"
  by (simp add: dcRequest_def)

text \<open>A REST call sends at most one request, with the method it was given.\<close>

lemma callJiraDataCenterAPI_trace:
  "snd (callJiraDataCenterAPI B W E endpoint meth body tr) = tr
   \<or> (\<exists>req w. snd (callJiraDataCenterAPI B W E endpoint meth body tr) = tr @ [Https req w]
         \<and> httpMethod req = meth)"
proof -
  consider (base) "isBlank (JIRA_BASE_URL E)"
    | (token) "\<not> isBlank (JIRA_BASE_URL E)"
        "isBlank (orVar (JIRA_API_TOKEN E) (JIRA_PERSONAL_ACCESS_TOKEN E))"
    | (user) "\<not> isBlank (JIRA_BASE_URL E)"
        "\<not> isBlank (orVar (JIRA_API_TOKEN E) (JIRA_PERSONAL_ACCESS_TOKEN E))"
        "\<not> ((isSet (JIRA_PERSONAL_ACCESS_TOKEN E) \<and> \<not> isSet (JIRA_API_TOKEN E))
            \<or> \<not> isBlank (orVar (JIRA_USERNAME E) (JIRA_EMAIL E)))"
    | (ok) "\<not> isBlank (JIRA_BASE_URL E)"
        "\<not> isBlank (orVar (JIRA_API_TOKEN E) (JIRA_PERSONAL_ACCESS_TOKEN E))"
        "(isSet (JIRA_PERSONAL_ACCESS_TOKEN E) \<and> \<not> isSet (JIRA_API_TOKEN E))
            \<or> \<not> isBlank (orVar (JIRA_USERNAME E) (JIRA_EMAIL E))"
    by blast
  then show ?thesis
  proof cases
    case base
    then show ?thesis unfolding callJiraDataCenterAPI_def Let_def by (simp add: throw_def)
  next
    case token
    then show ?thesis unfolding callJiraDataCenterAPI_def Let_def by (simp add: throw_def)
  next
    case user
    then show ?thesis unfolding callJiraDataCenterAPI_def Let_def by (simp add: throw_def)
  next
    case ok
    show ?thesis
    proof (cases "parseURL B (strOf (JIRA_BASE_URL E))")
      case None
      then show ?thesis using callJiraDataCenterAPI_no_url[OF ok None] by simp
    next
      case (Some u)
      show ?thesis
      proof (cases "authHeader B E")
        case (Inl e)
        then show ?thesis using ok Some unfolding callJiraDataCenterAPI_def Let_def
          by (simp add: throw_def)
      next
        case (Inr auth)
        from callJiraDataCenterAPI_request[OF ok Some Inr, of W endpoint meth body tr]
        show ?thesis using httpMethod_dcRequest by blast
      qed
    qed
  qed
qed

lemma resolveCloudId_datacenter:
  assumes "getJiraType E = Datacenter"
  shows "\<exists>c. resolveCloudId E args = ret c"
  using assms
  by (auto simp: resolveCloudId_def getCloudId_def getJiraType_def isBlank_def
      split: option.splits if_splits)

lemma andThen_ret: "andThen (ret c) f = f c"
  by (simp add: andThen_def ret_def)

lemma getTransitions_datacenter:
  assumes "getJiraType E = Datacenter"
  shows "callJiraTool B W E (js ''getTransitionsForJiraIssue'')
           (JObj [(js ''cloudId'', c), (js ''issueIdOrKey'', k)]) =
         andThen (callJiraDataCenterAPI B W E (js ''issue/'' @ toStr B k @ js ''/transitions'')
                    (js ''GET'') JUndefined)
           (\<lambda>result. ret (mcpText B result))"
  using assms
  by (simp add: callJiraTool_def callJiraDataCenterTool_def Let_def js_def)

lemma mcpText_no_transitions: "getProp (mcpText B result) (js ''transitions'') = JUndefined"
  by (simp add: mcpText_def js_def)

text \<open>
  In Data Center mode the handler returns the failure of the look-up, or else the error
  that no review transition was found; its trace is that of the look-up.
\<close>

lemma transition_datacenter_outcome:
  assumes dc: "getJiraType E = Datacenter"
  shows "transitionJiraIssueToReview B W E args tr =
           (case callJiraDataCenterAPI B W E
                   (js ''issue/'' @ toStr B (getProp args (js ''issueIdOrKey'')) @ js ''/transitions'')
                   (js ''GET'') JUndefined tr of
              (Inl e, tr') \<Rightarrow> (Inl e, tr')
            | (Inr v, tr') \<Rightarrow> (Inl (Error msgNoReviewTransition), tr'))"
proof -
  obtain c where c: "resolveCloudId E args = ret c"
    using resolveCloudId_datacenter[OF dc] by blast
  show ?thesis
    unfolding transitionJiraIssueToReview_def c andThen_ret getTransitions_datacenter[OF dc]
    by (simp add: andThen_def ret_def throw_def lift_def Let_def mcpText_no_transitions
        orElse_def split: prod.splits sum.splits)
qed

text \<open>
  Claim C8.  In Data Center mode the adapter wraps the transitions in a content-block
  envelope, whose \<open>transitions\<close> property is absent.  So whatever the tracker reports
  (the look-up succeeds with any payload), \<open>transitionJiraIssueToReview\<close> throws
  \<open>No 'In Review' transition found for this issue\<close>; when the look-up itself fails, its
  error is passed on.  The call never succeeds and never executes a transition: all it
  sends is the look-up, at most one \<open>GET\<close> request.
\<close>

theorem datacenter_review_transition_never_found:
  assumes dc: "getJiraType E = Datacenter"
  shows
    "(\<forall>v. fst (callJiraDataCenterAPI B W E
                  (js ''issue/'' @ toStr B (getProp args (js ''issueIdOrKey'')) @ js ''/transitions'')
                  (js ''GET'') JUndefined tr) = Inr v
          \<longrightarrow> fst (transitionJiraIssueToReview B W E args tr) = Inl (Error msgNoReviewTransition))
     \<and> (\<forall>e. fst (callJiraDataCenterAPI B W E
                  (js ''issue/'' @ toStr B (getProp args (js ''issueIdOrKey'')) @ js ''/transitions'')
                  (js ''GET'') JUndefined tr) = Inl e
          \<longrightarrow> fst (transitionJiraIssueToReview B W E args tr) = Inl e)
     \<and> (\<exists>e. fst (transitionJiraIssueToReview B W E args tr) = Inl e)
     \<and> (snd (transitionJiraIssueToReview B W E args tr) = tr
        \<or> (\<exists>req w. snd (transitionJiraIssueToReview B W E args tr) = tr @ [Https req w]
              \<and> httpMethod req = js ''GET''))"
proof -
  let ?lookup = "callJiraDataCenterAPI B W E
                  (js ''issue/'' @ toStr B (getProp args (js ''issueIdOrKey'')) @ js ''/transitions'')
                  (js ''GET'') JUndefined tr"
  have out: "transitionJiraIssueToReview B W E args tr =
           (case ?lookup of
              (Inl e, tr') \<Rightarrow> (Inl e, tr')
            | (Inr v, tr') \<Rightarrow> (Inl (Error msgNoReviewTransition), tr'))"
    by (rule transition_datacenter_outcome[OF dc])
  have tr: "snd (transitionJiraIssueToReview B W E args tr) = snd ?lookup"
    unfolding out by (cases ?lookup) (auto split: sum.splits)
  have a: "\<forall>v. fst ?lookup = Inr v
          \<longrightarrow> fst (transitionJiraIssueToReview B W E args tr) = Inl (Error msgNoReviewTransition)"
    unfolding out by (cases ?lookup) (auto split: sum.splits)
  have b: "\<forall>e. fst ?lookup = Inl e \<longrightarrow> fst (transitionJiraIssueToReview B W E args tr) = Inl e"
    unfolding out by (cases ?lookup) (auto split: sum.splits)
  have c: "\<exists>e. fst (transitionJiraIssueToReview B W E args tr) = Inl e"
    unfolding out by (cases ?lookup) (auto split: sum.splits)
  have d: "snd (transitionJiraIssueToReview B W E args tr) = tr
        \<or> (\<exists>req w. snd (transitionJiraIssueToReview B W E args tr) = tr @ [Https req w]
              \<and> httpMethod req = js ''GET'')"
    unfolding tr by (rule callJiraDataCenterAPI_trace)
  from a b c d show ?thesis by blast
qed

text \<open>The look-up in the example world: the tracker reports the two transitions.\<close>

lemma example_lookup:
  "callJiraDataCenterAPI exampleBuiltins exampleWorld patEnv
     (js ''issue/'' @ toStr exampleBuiltins (getProp (JObj [(js ''issueIdOrKey'', JStr (js ''OPS-7''))])
                                              (js ''issueIdOrKey'')) @ js ''/transitions'')
     (js ''GET'') JUndefined [] =
   (Inr exampleTransitions,
    [Https \<lparr> hostname = js ''jira.example.com'', port = JNum 443,
             path = js ''/rest/api/2/issue/OPS-7/transitions'', httpMethod = js ''GET'',
             headers = [(js ''Authorization'', js ''Bearer abc''),
                        (js ''Content-Type'', js ''application/json''),
                        (js ''Accept'', js ''application/json'')] \<rparr> None])"
  by (simp add: callJiraDataCenterAPI_def authHeader_def Let_def io_defs toStr_def
      example_defs string_defs isBlank_def isSet_def orVar_def strOf_def)

lemma patEnv_datacenter: "getJiraType patEnv = Datacenter"
  by (simp add: example_defs string_defs isBlank_def getJiraType_def)

theorem datacenter_review_transition_never_found_witness:
  "fst (transitionJiraIssueToReview exampleBuiltins exampleWorld patEnv
          (JObj [(js ''issueIdOrKey'', JStr (js ''OPS-7''))]) []) = Inl (Error msgNoReviewTransition)"
proof -
  have l: "fst (callJiraDataCenterAPI exampleBuiltins exampleWorld patEnv
     (js ''issue/'' @ toStr exampleBuiltins (getProp (JObj [(js ''issueIdOrKey'', JStr (js ''OPS-7''))])
                                              (js ''issueIdOrKey'')) @ js ''/transitions'')
     (js ''GET'') JUndefined []) = Inr exampleTransitions"
    by (simp only: example_lookup fst_conv)
  from datacenter_review_transition_never_found[OF patEnv_datacenter, of exampleBuiltins
      exampleWorld "JObj [(js ''issueIdOrKey'', JStr (js ''OPS-7''))]" "[]"] l
  show ?thesis by blast
qed

text \<open>
  The selection itself works on a result that carries \<open>transitions\<close> at its top level:
  when the remote tool server answers with the two transitions of the example there,
  the handler executes the transition with identifier 2.
\<close>

lemma transition_selects_review_when_flat:
  "transitionJiraIssueToReview exampleBuiltins exampleWorld emptyEnv
     (JObj [(js ''cloudId'', JStr (js ''c1'')), (js ''issueIdOrKey'', JStr (js ''OPS-7''))]) [] =
   (Inr (mcpText exampleBuiltins
           (JObj [(js ''success'', JBool True),
                  (js ''message'', JStr (js ''Issue OPS-7 transitioned to review'')),
                  (js ''data'', exampleTransitions)])),
    [ToolsCall (js ''getTransitionsForJiraIssue'')
       (JObj [(js ''cloudId'', JStr (js ''c1'')), (js ''issueIdOrKey'', JStr (js ''OPS-7''))]),
     ToolsCall (js ''transitionJiraIssue'')
       (JObj [(js ''cloudId'', JStr (js ''c1'')), (js ''issueIdOrKey'', JStr (js ''OPS-7'')),
              (js ''transition'', JObj [(js ''id'', JNum 2)])])])"
  by (simp add: transitionJiraIssueToReview_def resolveCloudId_def callJiraTool_def
      isReviewTransition_def mentionsReview_def orElse_def toStr_def Let_def io_defs
      example_defs string_defs isBlank_def getJiraType_def)

text \<open>
  Claim C7 fails in Data Center mode.  The tracker reports the transitions of the
  example, \<open>Done\<close> and \<open>In Review\<close>, and the text of the envelope parses to them; yet the
  handler throws that no review transition was found, and sends nothing but the look-up.
\<close>

theorem review_transition_lost_in_envelope:
  "jsonParse exampleBuiltins exampleTransitionsText
     = Some exampleTransitions
   \<and> transitionJiraIssueToReview exampleBuiltins exampleWorld patEnv
        (JObj [(js ''issueIdOrKey'', JStr (js ''OPS-7''))]) [] =
      (Inl (Error msgNoReviewTransition),
       [Https \<lparr> hostname = js ''jira.example.com'', port = JNum 443,
                path = js ''/rest/api/2/issue/OPS-7/transitions'', httpMethod = js ''GET'',
                headers = [(js ''Authorization'', js ''Bearer abc''),
                           (js ''Content-Type'', js ''application/json''),
                           (js ''Accept'', js ''application/json'')] \<rparr> None])"
proof -
  have p: "jsonParse exampleBuiltins exampleTransitionsText
     = Some exampleTransitions"
    by (simp add: example_defs js_def)
  have t: "transitionJiraIssueToReview exampleBuiltins exampleWorld patEnv
        (JObj [(js ''issueIdOrKey'', JStr (js ''OPS-7''))]) [] =
      (Inl (Error msgNoReviewTransition),
       [Https \<lparr> hostname = js ''jira.example.com'', port = JNum 443,
                path = js ''/rest/api/2/issue/OPS-7/transitions'', httpMethod = js ''GET'',
                headers = [(js ''Authorization'', js ''Bearer abc''),
                           (js ''Content-Type'', js ''application/json''),
                           (js ''Accept'', js ''application/json'')] \<rparr> None])"
    unfolding transition_datacenter_outcome[OF patEnv_datacenter] example_lookup by simp
  from p t show ?thesis by simp
qed

section \<open>Classification of the assignee\<close>

lemma jsIncludes_unit: "jsIncludes s [c] = (c \<in> set s)"
  by (induction s) (auto simp: startsWith_def)

lemma assigneeField_cases:
  "assigneeField B a =
     JObj [(js ''assignee'',
            (if toLowerCase B a = js ''unassign'' \<or> a = [] then JNull
             else if 64 \<in> set a then JObj [(js ''emailAddress'', JStr a)]
             else if 58 \<in> set a \<or> 30 < length a then JObj [(js ''accountId'', JStr a)]
             else JObj [(js ''name'', JStr a)]))]"
proof -
  have at: "js ''@'' = [64]" and colon: "js '':'' = [58]" by (simp_all add: js_def)
  show ?thesis
    unfolding assigneeField_def at colon jsIncludes_unit by simp
qed

lemma asciiLowerCase_apply:
  "asciiLowerCase B \<Longrightarrow> list_all (\<lambda>c. c < 128) s \<Longrightarrow> toLowerCase B s = lowerBasic s"
  by (simp add: asciiLowerCase_def)

lemma assign_edit_call_cloud:
  assumes "getJiraType E = Cloud" and "truthy (getProp args (js ''cloudId''))"
    and "getProp args (js ''assignee'') = JStr a"
  shows "snd (assignJiraIssueWithAnalysis B W E args tr) =
           tr @ [ToolsCall (js ''editJiraIssue'')
                   (JObj [(js ''cloudId'', getProp args (js ''cloudId'')),
                          (js ''issueIdOrKey'', getProp args (js ''issueIdOrKey'')),
                          (js ''fields'', assigneeField B a)])]"
  using assms
  by (simp add: assignJiraIssueWithAnalysis_def resolveCloudId_def callJiraTool_def io_defs
      split: sum.splits)

lemma isObjectValue_assigneeField: "isObjectValue (assigneeField B a)"
  by (simp add: assigneeField_def)

lemma andThen_andThen_ret:
  "andThen (andThen m (\<lambda>r. ret (g r))) f = andThen m (\<lambda>r. f (g r))"
  by (auto simp: andThen_def ret_def fun_eq_iff split: prod.splits sum.splits)

lemma assign_edit_call_datacenter:
  assumes dc: "getJiraType E = Datacenter"
    and a: "getProp args (js ''assignee'') = JStr a"
  shows "assignJiraIssueWithAnalysis B W E args =
           andThen
             (callJiraDataCenterAPI B W E
                (js ''issue/'' @ toStr B (getProp args (js ''issueIdOrKey''))) (js ''PUT'')
                (JObj [(js ''fields'', assigneeField B a)]))
             (\<lambda>result.
                ret (mcpText B
                       (JObj [(js ''success'', JBool True),
                              (js ''message'',
                                 JStr (js ''Issue '' @ toStr B (getProp args (js ''issueIdOrKey''))
                                         @ js '' assigned successfully'')),
                              (js ''data'', mcpText B result)])))"
proof -
  obtain c where c: "resolveCloudId E args = ret c"
    using resolveCloudId_datacenter[OF dc] by blast
  have call: "callJiraTool B W E (js ''editJiraIssue'')
                (JObj [(js ''cloudId'', c),
                       (js ''issueIdOrKey'', getProp args (js ''issueIdOrKey'')),
                       (js ''fields'', assigneeField B a)]) =
              andThen
                (callJiraDataCenterAPI B W E
                   (js ''issue/'' @ toStr B (getProp args (js ''issueIdOrKey''))) (js ''PUT'')
                   (JObj [(js ''fields'', assigneeField B a)]))
                (\<lambda>result. ret (mcpText B result))"
    using dc
    by (simp add: callJiraTool_def callJiraDataCenterTool_def Let_def js_def
        isObjectValue_assigneeField)
  show ?thesis
    unfolding assignJiraIssueWithAnalysis_def c andThen_ret a
    by (simp add: call andThen_andThen_ret)
qed

lemma assignee_examples:
  assumes "asciiLowerCase B"
  shows "assigneeField B (js ''a@b.com'')
           = JObj [(js ''assignee'', JObj [(js ''emailAddress'', JStr (js ''a@b.com''))])]"
    and "assigneeField B (js ''0123456789abcdef0123456789abcdef'')
           = JObj [(js ''assignee'',
                    JObj [(js ''accountId'', JStr (js ''0123456789abcdef0123456789abcdef''))])]"
    and "assigneeField B (js ''unassign'') = JObj [(js ''assignee'', JNull)]"
    and "assigneeField B (js ''UnAssign'') = JObj [(js ''assignee'', JNull)]"
    and "assigneeField B (js ''john'')
           = JObj [(js ''assignee'', JObj [(js ''name'', JStr (js ''john''))])]"
proof -
  have l1: "toLowerCase B (js ''a@b.com'') = lowerBasic (js ''a@b.com'')"
    by (rule asciiLowerCase_apply[OF assms]) (simp add: js_def)
  have l2: "toLowerCase B (js ''0123456789abcdef0123456789abcdef'')
              = lowerBasic (js ''0123456789abcdef0123456789abcdef'')"
    by (rule asciiLowerCase_apply[OF assms]) (simp add: js_def)
  have l3: "toLowerCase B (js ''unassign'') = lowerBasic (js ''unassign'')"
    by (rule asciiLowerCase_apply[OF assms]) (simp add: js_def)
  have l4: "toLowerCase B (js ''UnAssign'') = lowerBasic (js ''UnAssign'')"
    by (rule asciiLowerCase_apply[OF assms]) (simp add: js_def)
  have l5: "toLowerCase B (js ''john'') = lowerBasic (js ''john'')"
    by (rule asciiLowerCase_apply[OF assms]) (simp add: js_def)
  show "assigneeField B (js ''a@b.com'')
           = JObj [(js ''assignee'', JObj [(js ''emailAddress'', JStr (js ''a@b.com''))])]"
    unfolding assigneeField_cases l1 by (simp add: lowerBasic_def lowerUnit_def js_def)
  show "assigneeField B (js ''0123456789abcdef0123456789abcdef'')
           = JObj [(js ''assignee'',
                    JObj [(js ''accountId'', JStr (js ''0123456789abcdef0123456789abcdef''))])]"
    unfolding assigneeField_cases l2 by (simp add: lowerBasic_def lowerUnit_def js_def)
  show "assigneeField B (js ''unassign'') = JObj [(js ''assignee'', JNull)]"
    unfolding assigneeField_cases l3 by (simp add: lowerBasic_def lowerUnit_def js_def)
  show "assigneeField B (js ''UnAssign'') = JObj [(js ''assignee'', JNull)]"
    unfolding assigneeField_cases l4 by (simp add: lowerBasic_def lowerUnit_def js_def)
  show "assigneeField B (js ''john'')
           = JObj [(js ''assignee'', JObj [(js ''name'', JStr (js ''john''))])]"
    unfolding assigneeField_cases l5 by (simp add: lowerBasic_def lowerUnit_def js_def)
qed

text \<open>The request and what is written to it are recorded as they are sent.\<close>

lemma snd_httpsRequest_written:
  "snd (httpsRequest W req d tr)
     = tr @ [Https req (case d of Some x \<Rightarrow> if x \<noteq> [] then Some x else None | None \<Rightarrow> None)]"
  by (simp add: httpsRequest_def Let_def)

lemma callJiraDataCenterAPI_written:
  assumes "dcConfigured B E u auth"
  shows "snd (callJiraDataCenterAPI B W E endpoint meth body tr)
           = tr @ [Https (dcRequest B u endpoint meth auth) (writtenBody B body)]"
proof -
  have pure: "\<And>v t. snd ((\<lambda>response.
                 if response = [] \<or> jsTrim response = [] then ret (JObj [])
                 else (case jsonParse B response of Some v \<Rightarrow> ret v | None \<Rightarrow> ret (JObj []))) v t) = t"
    by (simp add: ret_def split: option.splits)
  have u: "callJiraDataCenterAPI B W E endpoint meth body =
           andThen (httpsRequest W (dcRequest B u endpoint meth auth)
                      (if truthy body then Some (jsonStringify B body) else None))
             (\<lambda>response.
                 if response = [] \<or> jsTrim response = [] then ret (JObj [])
                 else (case jsonParse B response of Some v \<Rightarrow> ret v | None \<Rightarrow> ret (JObj [])))"
    using assms unfolding dcConfigured_def
    by (intro callJiraDataCenterAPI_unfold) simp_all
  show ?thesis
    unfolding u
    by (simp only: snd_andThen_pure[OF pure] snd_httpsRequest_written)
       (simp add: writtenBody_def)
qed

text \<open>With any other configuration the adapter fails before it sends anything.\<close>

lemma callJiraDataCenterAPI_no_request:
  assumes "\<forall>u auth. \<not> dcConfigured B E u auth"
  shows "snd (callJiraDataCenterAPI B W E endpoint meth body tr) = tr"
proof (cases "\<not> isBlank (JIRA_BASE_URL E)
      \<and> \<not> isBlank (orVar (JIRA_API_TOKEN E) (JIRA_PERSONAL_ACCESS_TOKEN E))
      \<and> ((isSet (JIRA_PERSONAL_ACCESS_TOKEN E) \<and> \<not> isSet (JIRA_API_TOKEN E))
           \<or> \<not> isBlank (orVar (JIRA_USERNAME E) (JIRA_EMAIL E)))")
  case False
  then show ?thesis
    unfolding callJiraDataCenterAPI_def Let_def by (auto simp: throw_def)
next
  case True
  show ?thesis
  proof (cases "parseURL B (strOf (JIRA_BASE_URL E))")
    case None
    then show ?thesis
      using True unfolding callJiraDataCenterAPI_def Let_def by (auto simp: throw_def)
  next
    case (Some u)
    then obtain e where e: "authHeader B E = Inl e"
      using True assms by (cases "authHeader B E") (auto simp: dcConfigured_def)
    show ?thesis
      using True Some e unfolding callJiraDataCenterAPI_def Let_def by (auto simp: throw_def)
  qed
qed

lemma snd_ret: "snd (ret v t) = t"
  by (simp add: ret_def)

lemma assign_put_datacenter:
  assumes "getJiraType E = Datacenter"
    and "getProp args (js ''assignee'') = JStr a"
    and "dcConfigured B E u auth"
  shows "snd (assignJiraIssueWithAnalysis B W E args tr) =
           tr @ [Https (dcRequest B u (js ''issue/'' @ toStr B (getProp args (js ''issueIdOrKey'')))
                          (js ''PUT'') auth)
                   (writtenBody B (JObj [(js ''fields'', assigneeField B a)]))]"
  unfolding assign_edit_call_datacenter[OF assms(1,2)]
  by (simp only: snd_andThen_pure[OF snd_ret] callJiraDataCenterAPI_written[OF assms(3)])

lemma assign_no_request_datacenter:
  assumes "getJiraType E = Datacenter"
    and "getProp args (js ''assignee'') = JStr a"
    and "\<forall>u auth. \<not> dcConfigured B E u auth"
  shows "snd (assignJiraIssueWithAnalysis B W E args tr) = tr"
  unfolding assign_edit_call_datacenter[OF assms(1,2)]
  by (simp only: snd_andThen_pure[OF snd_ret] callJiraDataCenterAPI_no_request[OF assms(3)])

text \<open>In Cloud mode the identifier of the site may come from the environment.\<close>

lemma assign_edit_call_cloud_env:
  assumes "getJiraType E = Cloud" and "\<not> truthy (getProp args (js ''cloudId''))"
    and "getCloudId E = Inr c"
    and "getProp args (js ''assignee'') = JStr a"
  shows "snd (assignJiraIssueWithAnalysis B W E args tr) =
           tr @ [ToolsCall (js ''editJiraIssue'')
                   (JObj [(js ''cloudId'', JStr c),
                          (js ''issueIdOrKey'', getProp args (js ''issueIdOrKey'')),
                          (js ''fields'', assigneeField B a)])]"
  using assms
  by (simp add: assignJiraIssueWithAnalysis_def resolveCloudId_def callJiraTool_def io_defs
      split: sum.splits)

lemma assign_no_cloud_id:
  assumes "\<not> truthy (getProp args (js ''cloudId''))" and "getCloudId E = Inl e"
  shows "assignJiraIssueWithAnalysis B W E args tr = (Inl e, tr)"
  using assms
  by (simp add: assignJiraIssueWithAnalysis_def resolveCloudId_def io_defs)

text \<open>
  Claim C10.  The assignee string is classified by first match: the empty string, or a
  string whose lower-case form is \<open>unassign\<close>, clears the assignee; else a string with
  \<open>@\<close> (code unit 64) is an e-mail address; else a string with \<open>:\<close> (code unit 58) or of
  more than 30 code units is an account identifier; otherwise it is a name.  The edit
  call carries exactly that value as its \<open>fields\<close>.  In Cloud mode the handler makes one
  request, \<open>editJiraIssue\<close> with these fields and the identifier of the site, which is
  the one among the arguments or else the one of the environment; without either it
  fails and makes no request.  In Data Center mode the handler is the \<open>PUT\<close> of the issue
  with the body \<open>{fields: ...}\<close> holding them: with a configuration that passes the guards
  of the adapter the one request sent is that \<open>PUT\<close>, to \<open>issue/\<close> followed by the key,
  and what is written to it is the serialised body; with any other configuration nothing is
  sent.  The four examples of the specification come out as stated, for a
  \<open>toLowerCase\<close> that treats Basic Latin as the platform does.
\<close>

theorem assignee_classification:
  "assigneeField B a =
     JObj [(js ''assignee'',
            (if toLowerCase B a = js ''unassign'' \<or> a = [] then JNull
             else if 64 \<in> set a then JObj [(js ''emailAddress'', JStr a)]
             else if 58 \<in> set a \<or> 30 < length a then JObj [(js ''accountId'', JStr a)]
             else JObj [(js ''name'', JStr a)]))]
   \<and> (getJiraType E = Cloud \<and> truthy (getProp args (js ''cloudId''))
        \<and> getProp args (js ''assignee'') = JStr a \<longrightarrow>
        snd (assignJiraIssueWithAnalysis B W E args tr) =
           tr @ [ToolsCall (js ''editJiraIssue'')
                   (JObj [(js ''cloudId'', getProp args (js ''cloudId'')),
                          (js ''issueIdOrKey'', getProp args (js ''issueIdOrKey'')),
                          (js ''fields'', assigneeField B a)])])
   \<and> (getJiraType E = Cloud \<and> \<not> truthy (getProp args (js ''cloudId''))
        \<and> getCloudId E = Inr c \<and> getProp args (js ''assignee'') = JStr a \<longrightarrow>
        snd (assignJiraIssueWithAnalysis B W E args tr) =
           tr @ [ToolsCall (js ''editJiraIssue'')
                   (JObj [(js ''cloudId'', JStr c),
                          (js ''issueIdOrKey'', getProp args (js ''issueIdOrKey'')),
                          (js ''fields'', assigneeField B a)])])
   \<and> (\<not> truthy (getProp args (js ''cloudId'')) \<and> getCloudId E = Inl e \<longrightarrow>
        assignJiraIssueWithAnalysis B W E args tr = (Inl e, tr))
   \<and> (getJiraType E = Datacenter \<and> getProp args (js ''assignee'') = JStr a \<longrightarrow>
        assignJiraIssueWithAnalysis B W E args =
           andThen
             (callJiraDataCenterAPI B W E
                (js ''issue/'' @ toStr B (getProp args (js ''issueIdOrKey''))) (js ''PUT'')
                (JObj [(js ''fields'', assigneeField B a)]))
             (\<lambda>result.
                ret (mcpText B
                       (JObj [(js ''success'', JBool True),
                              (js ''message'',
                                 JStr (js ''Issue '' @ toStr B (getProp args (js ''issueIdOrKey''))
                                         @ js '' assigned successfully'')),
                              (js ''data'', mcpText B result)]))))
   \<and> (getJiraType E = Datacenter \<and> getProp args (js ''assignee'') = JStr a
        \<and> dcConfigured B E u auth \<longrightarrow>
        snd (assignJiraIssueWithAnalysis B W E args tr) =
           tr @ [Https (dcRequest B u (js ''issue/'' @ toStr B (getProp args (js ''issueIdOrKey'')))
                          (js ''PUT'') auth)
                   (writtenBody B (JObj [(js ''fields'', assigneeField B a)]))])
   \<and> (getJiraType E = Datacenter \<and> getProp args (js ''assignee'') = JStr a
        \<and> (\<forall>u auth. \<not> dcConfigured B E u auth) \<longrightarrow>
        snd (assignJiraIssueWithAnalysis B W E args tr) = tr)
   \<and> (asciiLowerCase B \<longrightarrow>
        assigneeField B (js ''a@b.com'')
           = JObj [(js ''assignee'', JObj [(js ''emailAddress'', JStr (js ''a@b.com''))])]
        \<and> assigneeField B (js ''0123456789abcdef0123456789abcdef'')
           = JObj [(js ''assignee'',
                    JObj [(js ''accountId'', JStr (js ''0123456789abcdef0123456789abcdef''))])]
        \<and> assigneeField B (js ''unassign'') = JObj [(js ''assignee'', JNull)]
        \<and> assigneeField B (js ''UnAssign'') = JObj [(js ''assignee'', JNull)]
        \<and> assigneeField B (js ''john'')
           = JObj [(js ''assignee'', JObj [(js ''name'', JStr (js ''john''))])])"
  using assigneeField_cases[of B a] assign_edit_call_cloud[of E args a B W tr]
    assign_edit_call_cloud_env[of E args c a B W tr] assign_no_cloud_id[of args E e B W tr]
    assign_edit_call_datacenter[of E args a B W] assign_put_datacenter[of E args a B u auth W tr]
    assign_no_request_datacenter[of E args a B W tr] assignee_examples[of B]
  by blast

lemma asciiLowerCase_serialising: "asciiLowerCase serialisingBuiltins"
  by (simp add: asciiLowerCase_def serialisingBuiltins_def exampleBuiltins_def)

lemma dcConfigured_example:
  "dcConfigured serialisingBuiltins patEnv
     \<lparr> url_protocol = js ''https:'', url_hostname = js ''jira.example.com'',
       url_port = [], url_pathname = js ''/'' \<rparr>
     (js ''Bearer abc'')"
  by (simp add: dcConfigured_def authHeader_def isBlank_def isSet_def orVar_def strOf_def
      serialisingBuiltins_def example_defs string_defs)

lemma assigneeField_john:
  "assigneeField serialisingBuiltins (js ''john'')
     = JObj [(js ''assignee'', JObj [(js ''name'', JStr (js ''john''))])]"
  unfolding assigneeField_cases
  by (simp add: serialisingBuiltins_def exampleBuiltins_def lowerBasic_def lowerUnit_def js_def)

text \<open>
  The same call, for the name \<open>john\<close> and the issue \<open>OPS-7\<close>: in Cloud mode with the
  identifier among the arguments, in Cloud mode with the identifier in the environment,
  and in Data Center mode with a personal access token; then in Cloud mode without an
  identifier, and in Data Center mode without a token.
\<close>

theorem assignee_classification_witness:
  "assigneeField serialisingBuiltins (js ''a@b.com'')
      = JObj [(js ''assignee'', JObj [(js ''emailAddress'', JStr (js ''a@b.com''))])]
   \<and> assigneeField serialisingBuiltins (js ''john'')
      = JObj [(js ''assignee'', JObj [(js ''name'', JStr (js ''john''))])]
   \<and> snd (assignJiraIssueWithAnalysis serialisingBuiltins exampleWorld emptyEnv
            (JObj [(js ''cloudId'', JStr (js ''c1'')), (js ''issueIdOrKey'', JStr (js ''OPS-7'')),
                   (js ''assignee'', JStr (js ''john''))]) [])
      = [ToolsCall (js ''editJiraIssue'')
           (JObj [(js ''cloudId'', JStr (js ''c1'')),
                  (js ''issueIdOrKey'', JStr (js ''OPS-7'')),
                  (js ''fields'', JObj [(js ''assignee'', JObj [(js ''name'', JStr (js ''john''))])])])]
   \<and> snd (assignJiraIssueWithAnalysis serialisingBuiltins exampleWorld cloudIdEnv
            (JObj [(js ''issueIdOrKey'', JStr (js ''OPS-7'')),
                   (js ''assignee'', JStr (js ''john''))]) [])
      = [ToolsCall (js ''editJiraIssue'')
           (JObj [(js ''cloudId'', JStr (js ''site-1'')),
                  (js ''issueIdOrKey'', JStr (js ''OPS-7'')),
                  (js ''fields'', JObj [(js ''assignee'', JObj [(js ''name'', JStr (js ''john''))])])])]
   \<and> snd (assignJiraIssueWithAnalysis serialisingBuiltins exampleWorld patEnv
            (JObj [(js ''issueIdOrKey'', JStr (js ''OPS-7'')),
                   (js ''assignee'', JStr (js ''john''))]) [])
      = [Https \<lparr> hostname = js ''jira.example.com'', port = JNum 443,
                 path = js ''/rest/api/2/issue/OPS-7'', httpMethod = js ''PUT'',
                 headers = [(js ''Authorization'', js ''Bearer abc''),
                            (js ''Content-Type'', js ''application/json''),
                            (js ''Accept'', js ''application/json'')] \<rparr>
           (Some exampleAssignText)]
   \<and> assignJiraIssueWithAnalysis serialisingBuiltins exampleWorld emptyEnv
         (JObj [(js ''issueIdOrKey'', JStr (js ''OPS-7'')),
                (js ''assignee'', JStr (js ''john''))]) []
      = (Inl (Error msgCloudIdNotSet), [])
   \<and> snd (assignJiraIssueWithAnalysis serialisingBuiltins exampleWorld
            (emptyEnv \<lparr> JIRA_BASE_URL := Some (js ''https://jira.example.com'') \<rparr>)
            (JObj [(js ''issueIdOrKey'', JStr (js ''OPS-7'')),
                   (js ''assignee'', JStr (js ''john''))]) [])
      = []"
proof -
  let ?B = serialisingBuiltins
  let ?E = "emptyEnv \<lparr> JIRA_BASE_URL := Some (js ''https://jira.example.com'') \<rparr>"
  let ?u = "\<lparr> url_protocol = js ''https:'', url_hostname = js ''jira.example.com'',
       url_port = [], url_pathname = js ''/'' \<rparr>"
  let ?args1 = "JObj [(js ''cloudId'', JStr (js ''c1'')), (js ''issueIdOrKey'', JStr (js ''OPS-7'')),
                   (js ''assignee'', JStr (js ''john''))]"
  let ?args2 = "JObj [(js ''issueIdOrKey'', JStr (js ''OPS-7'')),
                   (js ''assignee'', JStr (js ''john''))]"
  let ?f = "JObj [(js ''assignee'', JObj [(js ''name'', JStr (js ''john''))])]"
  have c1: "getJiraType emptyEnv = Cloud \<and> truthy (getProp ?args1 (js ''cloudId''))
        \<and> getProp ?args1 (js ''assignee'') = JStr (js ''john'')"
    by (simp add: getJiraType_def isBlank_def emptyEnv_def js_def)
  have g1: "getProp ?args1 (js ''cloudId'') = JStr (js ''c1'')"
    "getProp ?args1 (js ''issueIdOrKey'') = JStr (js ''OPS-7'')"
    by (simp_all add: js_def)
  have c2: "getJiraType cloudIdEnv = Cloud \<and> \<not> truthy (getProp ?args2 (js ''cloudId''))
        \<and> getCloudId cloudIdEnv = Inr (js ''site-1'')
        \<and> getProp ?args2 (js ''assignee'') = JStr (js ''john'')"
    by (simp add: getJiraType_def getCloudId_def stripQuotes_def orVar_def isSet_def isBlank_def
        cloudIdEnv_def emptyEnv_def string_defs)
  have g2: "getProp ?args2 (js ''issueIdOrKey'') = JStr (js ''OPS-7'')"
    by (simp add: js_def)
  have c3: "getJiraType patEnv = Datacenter \<and> getProp ?args2 (js ''assignee'') = JStr (js ''john'')
        \<and> dcConfigured ?B patEnv ?u (js ''Bearer abc'')"
    using dcConfigured_example
    by (simp add: getJiraType_def isBlank_def patEnv_def emptyEnv_def string_defs)
  have r: "dcRequest ?B ?u (js ''issue/'' @ toStr ?B (JStr (js ''OPS-7''))) (js ''PUT'') (js ''Bearer abc'')
             = \<lparr> hostname = js ''jira.example.com'', port = JNum 443,
                 path = js ''/rest/api/2/issue/OPS-7'', httpMethod = js ''PUT'',
                 headers = [(js ''Authorization'', js ''Bearer abc''),
                            (js ''Content-Type'', js ''application/json''),
                            (js ''Accept'', js ''application/json'')] \<rparr>"
    by (simp add: dcRequest_def toStr_def string_defs)
  have w: "writtenBody ?B (JObj [(js ''fields'', ?f)]) = Some exampleAssignText"
    by (simp add: writtenBody_def serialisingBuiltins_def showString_def exampleAssignText_def
        js_def)
  from assignee_classification[of ?B "js ''john''" emptyEnv ?args1 exampleWorld "[]"]
    c1 asciiLowerCase_serialising
  have p1: "assigneeField ?B (js ''a@b.com'')
      = JObj [(js ''assignee'', JObj [(js ''emailAddress'', JStr (js ''a@b.com''))])]
   \<and> assigneeField ?B (js ''john'') = ?f
   \<and> snd (assignJiraIssueWithAnalysis ?B exampleWorld emptyEnv ?args1 [])
      = [] @ [ToolsCall (js ''editJiraIssue'')
           (JObj [(js ''cloudId'', getProp ?args1 (js ''cloudId'')),
                  (js ''issueIdOrKey'', getProp ?args1 (js ''issueIdOrKey'')),
                  (js ''fields'', assigneeField ?B (js ''john''))])]"
    by blast
  from assignee_classification[of ?B "js ''john''" cloudIdEnv ?args2 exampleWorld "[]"
      "js ''site-1''"] c2
  have p2: "snd (assignJiraIssueWithAnalysis ?B exampleWorld cloudIdEnv ?args2 [])
      = [] @ [ToolsCall (js ''editJiraIssue'')
           (JObj [(js ''cloudId'', JStr (js ''site-1'')),
                  (js ''issueIdOrKey'', getProp ?args2 (js ''issueIdOrKey'')),
                  (js ''fields'', assigneeField ?B (js ''john''))])]"
    by blast
  from assignee_classification[of ?B "js ''john''" patEnv ?args2 exampleWorld "[]" _ _
      ?u "js ''Bearer abc''"] c3
  have p3: "snd (assignJiraIssueWithAnalysis ?B exampleWorld patEnv ?args2 [])
      = [] @ [Https (dcRequest ?B ?u (js ''issue/'' @ toStr ?B (getProp ?args2 (js ''issueIdOrKey'')))
                          (js ''PUT'') (js ''Bearer abc''))
                   (writtenBody ?B (JObj [(js ''fields'', assigneeField ?B (js ''john''))]))]"
    by blast
  have q1: "snd (assignJiraIssueWithAnalysis ?B exampleWorld emptyEnv ?args1 [])
      = [ToolsCall (js ''editJiraIssue'')
           (JObj [(js ''cloudId'', JStr (js ''c1'')),
                  (js ''issueIdOrKey'', JStr (js ''OPS-7'')), (js ''fields'', ?f)])]"
    using p1 unfolding g1 assigneeField_john by simp
  have q2: "snd (assignJiraIssueWithAnalysis ?B exampleWorld cloudIdEnv ?args2 [])
      = [ToolsCall (js ''editJiraIssue'')
           (JObj [(js ''cloudId'', JStr (js ''site-1'')),
                  (js ''issueIdOrKey'', JStr (js ''OPS-7'')), (js ''fields'', ?f)])]"
    using p2 unfolding g2 assigneeField_john by simp
  have q3: "snd (assignJiraIssueWithAnalysis ?B exampleWorld patEnv ?args2 [])
      = [Https \<lparr> hostname = js ''jira.example.com'', port = JNum 443,
                 path = js ''/rest/api/2/issue/OPS-7'', httpMethod = js ''PUT'',
                 headers = [(js ''Authorization'', js ''Bearer abc''),
                            (js ''Content-Type'', js ''application/json''),
                            (js ''Accept'', js ''application/json'')] \<rparr>
           (Some exampleAssignText)]"
    using p3 unfolding g2 assigneeField_john r w by simp
  have c4: "\<not> truthy (getProp ?args2 (js ''cloudId''))
        \<and> getCloudId emptyEnv = Inl (Error msgCloudIdNotSet)"
    by (simp add: getJiraType_def getCloudId_def orVar_def isSet_def isBlank_def emptyEnv_def
        js_def)
  from assignee_classification[of ?B "js ''john''" emptyEnv ?args2 exampleWorld "[]" _
      "Error msgCloudIdNotSet"] c4
  have q4: "assignJiraIssueWithAnalysis ?B exampleWorld emptyEnv ?args2 []
      = (Inl (Error msgCloudIdNotSet), [])"
    by blast
  have c5: "getJiraType ?E = Datacenter \<and> getProp ?args2 (js ''assignee'') = JStr (js ''john'')
        \<and> (\<forall>u auth. \<not> dcConfigured ?B ?E u auth)"
    by (simp add: getJiraType_def dcConfigured_def orVar_def isSet_def isBlank_def emptyEnv_def
        string_defs)
  from assignee_classification[of ?B "js ''john''" ?E ?args2 exampleWorld "[]"] c5
  have q5: "snd (assignJiraIssueWithAnalysis ?B exampleWorld ?E ?args2 []) = []"
    by blast
  from p1 q1 q2 q3 q4 q5 show ?thesis by blast
qed

section \<open>Validation in createJiraIssueWithBranch\<close>

lemma resolveCloudId_cases:
  "(truthy (getProp args (js ''cloudId'')) \<longrightarrow> resolveCloudId E args = ret (getProp args (js ''cloudId'')))
   \<and> (\<not> truthy (getProp args (js ''cloudId'')) \<and> getCloudId E = Inr c \<longrightarrow> resolveCloudId E args = ret (JStr c))
   \<and> (\<not> truthy (getProp args (js ''cloudId'')) \<and> getCloudId E = Inl e \<longrightarrow> resolveCloudId E args = throw e)"
  by (simp add: resolveCloudId_def)

lemma andThen_throw: "andThen (throw e) f = throw e"
  by (simp add: andThen_def throw_def)

lemma andThen_lift_Inr: "andThen (lift (Inr v)) f = f v"
  by (simp add: andThen_def lift_def)

lemma andThen_lift_Inl: "andThen (lift (Inl e)) f = throw e"
  by (simp add: andThen_def lift_def throw_def)

text \<open>The handler up to the end of the validation, for a cloud identifier that resolves.\<close>

lemma create_validation_steps:
  assumes "resolveCloudId E args = ret c"
  shows "isMissingOrBlank (getProp args (js ''projectKey'')) = Inr True \<Longrightarrow>
           createJiraIssueWithBranch B W E args = throw (Error (msgRequired ''projectKey''))"
    and "isMissingOrBlank (getProp args (js ''projectKey'')) = Inr False \<Longrightarrow>
         isMissingOrBlank (getProp args (js ''issueTypeName'')) = Inr True \<Longrightarrow>
           createJiraIssueWithBranch B W E args = throw (Error (msgRequired ''issueTypeName''))"
    and "isMissingOrBlank (getProp args (js ''projectKey'')) = Inr False \<Longrightarrow>
         isMissingOrBlank (getProp args (js ''issueTypeName'')) = Inr False \<Longrightarrow>
         isMissingOrBlank (getProp args (js ''summary'')) = Inr True \<Longrightarrow>
           createJiraIssueWithBranch B W E args = throw (Error (msgRequired ''summary''))"
    and "isMissingOrBlank (getProp args (js ''projectKey'')) = Inl x \<Longrightarrow>
           createJiraIssueWithBranch B W E args = throw x"
    and "isMissingOrBlank (getProp args (js ''projectKey'')) = Inr False \<Longrightarrow>
         isMissingOrBlank (getProp args (js ''issueTypeName'')) = Inl x \<Longrightarrow>
           createJiraIssueWithBranch B W E args = throw x"
  unfolding createJiraIssueWithBranch_def assms andThen_ret Let_def
  by (simp_all add: andThen_lift_Inr andThen_lift_Inl)

lemma create_no_cloudId:
  assumes "resolveCloudId E args = throw e"
  shows "createJiraIssueWithBranch B W E args = throw e"
  unfolding createJiraIssueWithBranch_def assms andThen_throw by simp

lemma resolveCloudId_ret_or_throw:
  "(\<exists>c. resolveCloudId E args = ret c) \<or> (\<exists>e. resolveCloudId E args = throw e)"
  by (cases "getCloudId E") (auto simp: resolveCloudId_def)

lemma create_blank_no_call:
  assumes "isMissingOrBlank (getProp args (js ''projectKey'')) = Inr True
           \<or> isMissingOrBlank (getProp args (js ''issueTypeName'')) = Inr True
           \<or> isMissingOrBlank (getProp args (js ''summary'')) = Inr True"
  shows "\<exists>e. createJiraIssueWithBranch B W E args tr = (Inl e, tr)"
proof -
  have t: "\<And>e. throw e tr = (Inl e, tr)" by (simp add: throw_def)
  from resolveCloudId_ret_or_throw[of E args] show ?thesis
  proof
    assume "\<exists>e. resolveCloudId E args = throw e"
    then show ?thesis using create_no_cloudId t by metis
  next
    assume "\<exists>c. resolveCloudId E args = ret c"
    then obtain c where c: "resolveCloudId E args = ret c" by blast
    show ?thesis
    proof (cases "isMissingOrBlank (getProp args (js ''projectKey''))")
      case (Inl x)
      then show ?thesis using create_validation_steps(4)[OF c] t by metis
    next
      case pk: (Inr b1)
      show ?thesis
      proof (cases b1)
        case True
        then show ?thesis using pk create_validation_steps(1)[OF c] t by metis
      next
        case b1: False
        show ?thesis
        proof (cases "isMissingOrBlank (getProp args (js ''issueTypeName''))")
          case (Inl x)
          then show ?thesis using pk b1 create_validation_steps(5)[OF c] t by metis
        next
          case itn: (Inr b2)
          show ?thesis
          proof (cases b2)
            case True
            then show ?thesis using pk b1 itn create_validation_steps(2)[OF c] t by metis
          next
            case False
            then have "isMissingOrBlank (getProp args (js ''summary'')) = Inr True"
              using assms pk b1 itn by simp
            then show ?thesis using pk b1 itn False create_validation_steps(3)[OF c] t by metis
          qed
        qed
      qed
    qed
  qed
qed

text \<open>
  Claim C9, as amended.  Whenever \<open>projectKey\<close>, \<open>issueTypeName\<close> or \<open>summary\<close> is missing
  or blank after trimming, \<open>createJiraIssueWithBranch\<close> fails and makes no external call
  at all.  The cloud identifier is resolved before the fields are checked.  When it
  resolves (it is among the arguments, or the environment provides it), the error is the
  validation error that names the first offending field, in the order \<open>projectKey\<close>,
  \<open>issueTypeName\<close>, \<open>summary\<close>.  When it does not resolve, the error is the
  configuration error of \<open>getCloudId\<close> instead.
\<close>

theorem createJiraIssueWithBranch_validation:
  "((isMissingOrBlank (getProp args (js ''projectKey'')) = Inr True
      \<or> isMissingOrBlank (getProp args (js ''issueTypeName'')) = Inr True
      \<or> isMissingOrBlank (getProp args (js ''summary'')) = Inr True)
     \<longrightarrow> (\<exists>e. createJiraIssueWithBranch B W E args tr = (Inl e, tr)))
   \<and> (truthy (getProp args (js ''cloudId'')) \<or> getCloudId E = Inr c \<longrightarrow>
        (isMissingOrBlank (getProp args (js ''projectKey'')) = Inr True \<longrightarrow>
           createJiraIssueWithBranch B W E args tr = (Inl (Error (msgRequired ''projectKey'')), tr))
        \<and> (isMissingOrBlank (getProp args (js ''projectKey'')) = Inr False
            \<and> isMissingOrBlank (getProp args (js ''issueTypeName'')) = Inr True \<longrightarrow>
           createJiraIssueWithBranch B W E args tr
             = (Inl (Error (msgRequired ''issueTypeName'')), tr))
        \<and> (isMissingOrBlank (getProp args (js ''projectKey'')) = Inr False
            \<and> isMissingOrBlank (getProp args (js ''issueTypeName'')) = Inr False
            \<and> isMissingOrBlank (getProp args (js ''summary'')) = Inr True \<longrightarrow>
           createJiraIssueWithBranch B W E args tr = (Inl (Error (msgRequired ''summary'')), tr)))
   \<and> (\<not> truthy (getProp args (js ''cloudId'')) \<and> getCloudId E = Inl e \<longrightarrow>
        createJiraIssueWithBranch B W E args tr = (Inl e, tr))"
proof (intro conjI impI)
  assume "isMissingOrBlank (getProp args (js ''projectKey'')) = Inr True
      \<or> isMissingOrBlank (getProp args (js ''issueTypeName'')) = Inr True
      \<or> isMissingOrBlank (getProp args (js ''summary'')) = Inr True"
  then show "\<exists>e. createJiraIssueWithBranch B W E args tr = (Inl e, tr)"
    by (rule create_blank_no_call)
next
  assume "truthy (getProp args (js ''cloudId'')) \<or> getCloudId E = Inr c"
  then have "\<exists>c'. resolveCloudId E args = ret c'"
    by (cases "truthy (getProp args (js ''cloudId''))") (auto simp: resolveCloudId_def)
  then obtain c' where c: "resolveCloudId E args = ret c'" by blast
  {
    assume "isMissingOrBlank (getProp args (js ''projectKey'')) = Inr True"
    then show "createJiraIssueWithBranch B W E args tr
                 = (Inl (Error (msgRequired ''projectKey'')), tr)"
      using create_validation_steps(1)[OF c] by (simp add: throw_def)
  next
    assume "isMissingOrBlank (getProp args (js ''projectKey'')) = Inr False
            \<and> isMissingOrBlank (getProp args (js ''issueTypeName'')) = Inr True"
    then show "createJiraIssueWithBranch B W E args tr
                 = (Inl (Error (msgRequired ''issueTypeName'')), tr)"
      using create_validation_steps(2)[OF c] by (simp add: throw_def)
  next
    assume "isMissingOrBlank (getProp args (js ''projectKey'')) = Inr False
            \<and> isMissingOrBlank (getProp args (js ''issueTypeName'')) = Inr False
            \<and> isMissingOrBlank (getProp args (js ''summary'')) = Inr True"
    then show "createJiraIssueWithBranch B W E args tr
                 = (Inl (Error (msgRequired ''summary'')), tr)"
      using create_validation_steps(3)[OF c] by (simp add: throw_def)
  }
next
  assume "\<not> truthy (getProp args (js ''cloudId'')) \<and> getCloudId E = Inl e"
  then have "resolveCloudId E args = throw e" by (simp add: resolveCloudId_def)
  then show "createJiraIssueWithBranch B W E args tr = (Inl e, tr)"
    using create_no_cloudId by (simp add: throw_def)
qed

theorem createJiraIssueWithBranch_validation_witness:
  "createJiraIssueWithBranch exampleBuiltins exampleWorld emptyEnv
     (JObj [(js ''cloudId'', JStr (js ''c1'')), (js ''projectKey'', JStr (js ''  '')),
            (js ''issueTypeName'', JStr (js ''Task'')), (js ''summary'', JStr (js ''Fix login''))])
     [] = (Inl (Error (msgRequired ''projectKey'')), [])"
proof -
  let ?args = "JObj [(js ''cloudId'', JStr (js ''c1'')), (js ''projectKey'', JStr (js ''  '')),
            (js ''issueTypeName'', JStr (js ''Task'')), (js ''summary'', JStr (js ''Fix login''))]"
  have c: "truthy (getProp ?args (js ''cloudId''))" by (simp add: js_def)
  have b: "isMissingOrBlank (getProp ?args (js ''projectKey'')) = Inr True"
    by (simp add: isMissingOrBlank_def string_defs)
  from createJiraIssueWithBranch_validation[of ?args exampleBuiltins exampleWorld emptyEnv "[]"]
    c b
  show ?thesis by blast
qed

text \<open>
  The claim as stated fails when no cloud identifier is available: with nothing set in
  the environment and none among the arguments, a call whose \<open>projectKey\<close> is empty fails
  with the error of \<open>getCloudId\<close>, which names no field.
\<close>

theorem createJiraIssueWithBranch_cloudId_counterexample:
  "isMissingOrBlank (getProp (JObj [(js ''projectKey'', JStr []),
                                    (js ''issueTypeName'', JStr (js ''Task'')),
                                    (js ''summary'', JStr (js ''Fix login''))])
                      (js ''projectKey'')) = Inr True
   \<and> createJiraIssueWithBranch exampleBuiltins exampleWorld emptyEnv
        (JObj [(js ''projectKey'', JStr []), (js ''issueTypeName'', JStr (js ''Task'')),
               (js ''summary'', JStr (js ''Fix login''))]) []
      = (Inl (Error msgCloudIdNotSet), [])
   \<and> msgCloudIdNotSet \<noteq> msgRequired ''projectKey''"
  by (simp add: createJiraIssueWithBranch_def resolveCloudId_def getCloudId_def
      isMissingOrBlank_def msgCloudIdNotSet_def msgRequired_def andThen_def throw_def ret_def
      getJiraType_def isBlank_def isSet_def orVar_def emptyEnv_def js_def)

section \<open>The extracted issue key\<close>

lemma fst_tryCatch_const:
  "fst (tryCatch (andThen x (\<lambda>_. ret v)) (\<lambda>_. ret v) tr) = Inr v"
  by (cases "x tr") (auto simp: tryCatch_def andThen_def ret_def split: sum.splits)

text \<open>\<open>handleCreateResponse\<close> never raises; its value is the extracted key.\<close>

lemma handleCreateResponse_value:
  "fst (handleCreateResponse B W E res branchNameInput tr) = Inr (extractIssueKey B res)"
  by (simp add: handleCreateResponse_def Let_def fst_tryCatch_const fst_ret)










section \<open>The form of the extracted key\<close>

lemma not_upper_hyphen: "\<not> isUpper 45"
  by (simp add: isUpper_def)

lemma matchKeyAt_idem:
  assumes "matchKeyAt s = Some m"
  shows "matchKeyAt m = Some m"
proof -
  let ?l = "takeWhile isUpper s"
  from assms have l: "?l \<noteq> []"
    by (auto simp: matchKeyAt_def Let_def split: if_splits)
  from assms obtain rest where d: "dropWhile isUpper s = 45 # rest"
    and dg: "takeWhile isDigit rest \<noteq> []"
    and m: "m = ?l @ [45] @ takeWhile isDigit rest"
    using l by (auto simp: matchKeyAt_def Let_def split: if_splits list.splits)
  let ?d = "takeWhile isDigit rest"
  have up: "\<forall>c\<in>set ?l. isUpper c" by (auto dest: set_takeWhileD)
  have tl: "takeWhile isUpper m = ?l"
    unfolding m using up by (simp add: takeWhile_append2 not_upper_hyphen)
  have dl: "dropWhile isUpper m = 45 # ?d"
    unfolding m using up by (simp add: dropWhile_append2 not_upper_hyphen)
  have td: "takeWhile isDigit ?d = ?d" by simp
  show ?thesis
    unfolding matchKeyAt_def Let_def tl dl using l dg td m by simp
qed

lemma firstKeyMatch_isIssueKey: "firstKeyMatch t = Some m \<Longrightarrow> isIssueKey m"
proof (induction t)
  case Nil
  then show ?case by simp
next
  case (Cons c cs)
  then show ?case
    by (cases "matchKeyAt (c # cs)") (auto simp: isIssueKey_def matchKeyAt_idem)
qed

text \<open>
  A scan that ends with a value other than \<open>null\<close> took it from the fields of a parsed
  text, or from the regular expression, and then it is a well-formed key.
\<close>

lemma scanContent_origin:
  assumes "scanContent B items = Inr k" and "k \<noteq> JNull"
  shows "truthy k
         \<and> (k \<in> set (concat (map (blockValues B) items)) \<or> (\<exists>m. k = JStr m \<and> isIssueKey m))"
  using assms
proof (induction items)
  case Nil
  then show ?case by simp
next
  case (Cons item items)
  have un: "set (concat (map (blockValues B) (item # items)))
              = set (blockValues B item) \<union> set (concat (map (blockValues B) items))"
    by simp
  show ?case
  proof (cases "scanContent B (item # items) = scanContent B items")
    case True
    have r: "scanContent B items = Inr k"
      using Cons.prems(1) unfolding True .
    from Cons.IH[OF r Cons.prems(2)] show ?thesis unfolding un by blast
  next
    case False
    then have nn: "\<not> nullish item"
      and tx: "getProp item (js ''type'') = JStr (js ''text'') \<and> truthy (getProp item (js ''text''))"
      using Cons.prems(1) by (auto split: if_splits)
    show ?thesis
    proof (cases "jsonParse B (toStr B (getProp item (js ''text'')))")
      case (Some parsed)
      then have "truthy (keyOfParsed parsed)" and "k = keyOfParsed parsed"
        using False Cons.prems(1) nn tx by (auto split: if_splits)
      moreover have "blockValues B item = [keyOfParsed parsed]"
        using Some tx by (simp add: blockValues_def)
      ultimately show ?thesis unfolding un by simp
    next
      case None
      then obtain t m where "firstKeyMatch t = Some m" and k: "k = JStr m"
        using False Cons.prems(1) nn tx by (auto split: if_splits json.splits option.splits)
      then have "isIssueKey m" using firstKeyMatch_isIssueKey by blast
      moreover have "m \<noteq> []" using \<open>isIssueKey m\<close>
        by (auto simp: isIssueKey_def matchKeyAt_def)
      ultimately show ?thesis using k by simp
    qed
  qed
qed

lemma orElse4_origin:
  assumes "orElse a (orElse b (orElse c (orElse d JNull))) = k" and "k \<noteq> JNull"
  shows "truthy k \<and> k \<in> set [a, b, c, d]"
  using assms by (auto simp: orElse_def split: if_splits)

lemma extractIssueKey_origin:
  assumes "extractIssueKey B res = k" and "k \<noteq> JNull"
  shows "truthy k
         \<and> (k \<in> set (fieldValues B (responseObject B res)) \<or> (\<exists>m. k = JStr m \<and> isIssueKey m))"
proof -
  let ?r = "responseObject B res"
  have e: "extractIssueKey B res =
     (if truthy (orElse (getProp ?r (js ''isError'')) (getProp ?r (js ''error'')))
         then JNull
         else (case getProp ?r (js ''content'') of
                 JArr items \<Rightarrow> (case scanContent B items of Inl e \<Rightarrow> JNull | Inr k \<Rightarrow> k)
               | _ \<Rightarrow>
                   orElse (getProp ?r (js ''key''))
                     (orElse (getProp (getProp ?r (js ''fields'')) (js ''key''))
                        (orElse (getProp ?r (js ''id''))
                           (orElse (getProp ?r (js ''issueKey'')) JNull)))))"
    unfolding extractIssueKey_def responseObject_def Let_def by (rule refl)
  have nf: "\<not> truthy (orElse (getProp ?r (js ''isError'')) (getProp ?r (js ''error'')))"
    using assms e by auto
  show ?thesis
  proof (cases "\<exists>items. getProp ?r (js ''content'') = JArr items")
    case True
    then obtain items where c: "getProp ?r (js ''content'') = JArr items" by blast
    have "scanContent B items = Inr k"
      using assms e nf c by (cases "scanContent B items") auto
    from scanContent_origin[OF this assms(2)] show ?thesis
      by (simp add: fieldValues_def c)
  next
    case False
    then have flat: "orElse (getProp ?r (js ''key''))
                     (orElse (getProp (getProp ?r (js ''fields'')) (js ''key''))
                        (orElse (getProp ?r (js ''id''))
                           (orElse (getProp ?r (js ''issueKey'')) JNull))) = k"
      using assms(1) e nf by (cases "getProp ?r (js ''content'')") auto
    have fv: "fieldValues B ?r = [getProp ?r (js ''key''),
           getProp (getProp ?r (js ''fields'')) (js ''key''),
           getProp ?r (js ''id''),
           getProp ?r (js ''issueKey'')]"
      using False by (cases "getProp ?r (js ''content'')") (auto simp: fieldValues_def)
    from orElse4_origin[OF flat assms(2)] show ?thesis unfolding fv by blast
  qed
qed

text \<open>
  Claim C6, as amended.  Every value other than \<open>null\<close> that \<open>handleCreateResponse\<close>
  returns is truthy, and it is either a string of the form \<open>[A-Z]+-[0-9]+\<close>, or a value
  read from the fields: \<open>key\<close>, \<open>fields.key\<close> or \<open>id\<close> of a block text that parses as
  JSON, or \<open>key\<close>, \<open>fields.key\<close>, \<open>id\<close> or \<open>issueKey\<close> of a flat result.  A value read
  from a field is returned as it is found, whatever its form: any truthy \<open>key\<close> of a flat
  result, and any truthy \<open>key\<close> of the parsed text of a single block, is the value
  returned.
\<close>

theorem issue_key_field_or_wellformed:
  "(fst (handleCreateResponse B W E res branchNameInput tr) = Inr k \<and> k \<noteq> JNull \<longrightarrow>
      truthy k
      \<and> (k \<in> set (fieldValues B (responseObject B res)) \<or> (\<exists>m. k = JStr m \<and> isIssueKey m)))
   \<and> (truthy v \<longrightarrow>
        fst (handleCreateResponse B W E (JObj [(js ''key'', v)]) branchNameInput tr) = Inr v)
   \<and> (truthy v \<and> t \<noteq> [] \<and> jsonParse B t = Some (JObj [(js ''key'', v)]) \<longrightarrow>
        fst (handleCreateResponse B W E
               (JObj [(js ''content'',
                       JArr [JObj [(js ''type'', JStr (js ''text'')), (js ''text'', JStr t)]])])
               branchNameInput tr) = Inr v)"
proof -
  have origin: "truthy k
      \<and> (k \<in> set (fieldValues B (responseObject B res)) \<or> (\<exists>m. k = JStr m \<and> isIssueKey m))"
    if "fst (handleCreateResponse B W E res branchNameInput tr) = Inr k \<and> k \<noteq> JNull"
  proof -
    from that have "extractIssueKey B res = k" and "k \<noteq> JNull"
      by (simp_all add: handleCreateResponse_value)
    then show ?thesis by (rule extractIssueKey_origin)
  qed
  have flat: "fst (handleCreateResponse B W E (JObj [(js ''key'', v)]) branchNameInput tr) = Inr v"
    if "truthy v"
  proof -
    from that have "extractIssueKey B (JObj [(js ''key'', v)]) = v"
      by (simp add: extractIssueKey_def orElse_def Let_def js_def)
    then show ?thesis by (simp only: handleCreateResponse_value)
  qed
  have block: "fst (handleCreateResponse B W E
               (JObj [(js ''content'',
                       JArr [JObj [(js ''type'', JStr (js ''text'')), (js ''text'', JStr t)]])])
               branchNameInput tr) = Inr v"
    if "truthy v \<and> t \<noteq> [] \<and> jsonParse B t = Some (JObj [(js ''key'', v)])"
  proof -
    from that have "extractIssueKey B
               (JObj [(js ''content'',
                       JArr [JObj [(js ''type'', JStr (js ''text'')), (js ''text'', JStr t)]])]) = v"
      by (simp add: extractIssueKey_def keyOfParsed_def orElse_def toStr_def Let_def js_def)
    then show ?thesis by (simp only: handleCreateResponse_value)
  qed
  from origin flat block show ?thesis by blast
qed

text \<open>
  A list of two blocks: the text of the first is JSON without a key, the text of the
  second is not JSON and holds \<open>ZZ-42\<close>.  And a flat result whose \<open>key\<close> is no issue key.
\<close>

theorem issue_key_field_or_wellformed_witness:
  "fst (handleCreateResponse exampleBuiltins exampleWorld emptyEnv
          (JObj [(js ''content'',
                  JArr [JObj [(js ''type'', JStr (js ''text'')), (js ''text'', JStr (js ''{}''))],
                        JObj [(js ''type'', JStr (js ''text'')),
                              (js ''text'', JStr (js ''see ZZ-42''))]])])
          JUndefined []) = Inr (JStr (js ''ZZ-42''))
   \<and> isIssueKey (js ''ZZ-42'')
   \<and> fst (handleCreateResponse exampleBuiltins exampleWorld emptyEnv
            (JObj [(js ''key'', JStr (js ''no key''))]) JUndefined [])
        = Inr (JStr (js ''no key''))
   \<and> \<not> isIssueKey (js ''no key'')"
proof -
  let ?r = "JObj [(js ''content'',
                  JArr [JObj [(js ''type'', JStr (js ''text'')), (js ''text'', JStr (js ''{}''))],
                        JObj [(js ''type'', JStr (js ''text'')),
                              (js ''text'', JStr (js ''see ZZ-42''))]])]"
  have v: "fst (handleCreateResponse exampleBuiltins exampleWorld emptyEnv ?r JUndefined [])
             = Inr (JStr (js ''ZZ-42''))"
    unfolding handleCreateResponse_value
    by (simp add: extractIssueKey_def keyOfParsed_def orElse_def toStr_def Let_def matchKeyAt_def
        isUpper_def isDigit_def example_defs js_def)
  have n: "JStr (js ''ZZ-42'') \<noteq> JNull" by simp
  have f: "JStr (js ''ZZ-42'') \<notin> set (fieldValues exampleBuiltins (responseObject exampleBuiltins ?r))"
    by (simp add: fieldValues_def blockValues_def responseObject_def keyOfParsed_def
        orElse_def toStr_def example_defs js_def)
  from issue_key_field_or_wellformed[of exampleBuiltins exampleWorld emptyEnv ?r JUndefined "[]"
      "JStr (js ''ZZ-42'')"] v n f
  have "\<exists>m. JStr (js ''ZZ-42'') = JStr m \<and> isIssueKey m" by blast
  then have w: "isIssueKey (js ''ZZ-42'')" by simp
  have t: "truthy (JStr (js ''no key''))" by (simp add: js_def)
  from issue_key_field_or_wellformed[of exampleBuiltins exampleWorld emptyEnv _ JUndefined "[]"
      _ "JStr (js ''no key'')"] t
  have g: "fst (handleCreateResponse exampleBuiltins exampleWorld emptyEnv
            (JObj [(js ''key'', JStr (js ''no key''))]) JUndefined [])
        = Inr (JStr (js ''no key''))" by blast
  have x: "\<not> isIssueKey (js ''no key'')"
    by (simp add: isIssueKey_def matchKeyAt_def isUpper_def js_def)
  from v w g x show ?thesis by blast
qed

text \<open>
  The claim as stated fails: a flat result without \<open>key\<close> gives its \<open>id\<close>, here \<open>10001\<close>,
  which is not of the form \<open>[A-Z]+-[0-9]+\<close>.
\<close>

theorem issue_key_from_id_counterexample:
  "fst (handleCreateResponse exampleBuiltins exampleWorld emptyEnv
          (JObj [(js ''id'', JStr (js ''10001''))]) JUndefined []) = Inr (JStr (js ''10001''))
   \<and> \<not> isIssueKey (js ''10001'')"
  unfolding handleCreateResponse_value
  by (simp add: extractIssueKey_def orElse_def Let_def isIssueKey_def matchKeyAt_def
      isUpper_def js_def)

section \<open>Transliteration\<close>

lemma transliterateChar_examples:
  "transliterateChar 1097 = js ''shch''"
  "transliterateChar 1078 = js ''zh''"
  "transliterateChar 1095 = js ''ch''"
  "transliterateChar 1065 = js ''SHCH''"
  by (simp_all add: transliterateChar_def transliterationMap_def js_def)

text \<open>
  The soft and hard signs are mapped to the empty string in the table, which is falsy:
  they are kept by \<open>transliterationMap[char] || char\<close> and end up as hyphens.
\<close>

lemma transliterateChar_soft_sign: "transliterateChar 1100 = [1100]"
  by (simp add: transliterateChar_def transliterationMap_def js_def)

lemma transliterateChar_letter:
  "isTranslitLetter c \<Longrightarrow> list_all isAsciiAlnum (transliterateChar c)"
  unfolding isTranslitLetter_def transliterateChar_def transliterationMap_def
  by (simp add: js_def isAsciiAlnum_def split: if_splits)

lemma transliterateChar_ascii:
  "isAsciiAlnum c \<Longrightarrow> transliterateChar c = [c]"
  unfolding transliterateChar_def transliterationMap_def isAsciiAlnum_def
  by (auto simp: js_def)

lemma transliterate_alnum:
  "list_all (\<lambda>c. isTranslitLetter c \<or> isAsciiAlnum c) name
   \<Longrightarrow> list_all isAsciiAlnum (transliterateToEnglish name)"
  by (induction name)
     (auto simp: transliterateToEnglish_def transliterateChar_letter transliterateChar_ascii)

lemma lowerBasic_alnum: "list_all isAsciiAlnum s \<Longrightarrow> list_all isLowerAlnum (lowerBasic s)"
  by (induction s) (auto simp: lowerBasic_def lowerUnit_def isAsciiAlnum_def isLowerAlnum_def)

lemma replaceRuns_alnum: "list_all isLowerAlnum s \<Longrightarrow> replaceRuns b s = s"
  by (induction s arbitrary: b) auto

lemma trimHyphens_alnum: "list_all isLowerAlnum s \<Longrightarrow> trimHyphens s = s"
proof -
  assume a: "list_all isLowerAlnum s"
  then have n: "\<forall>c\<in>set s. c \<noteq> 45" by (auto simp: list_all_iff not_alnum_hyphen)
  have d: "dropWhile (\<lambda>c. c = 45) s = s"
    using n by (cases s) auto
  have r: "dropWhile (\<lambda>c. c = 45) (rev s) = rev s"
    using n by (cases "rev s") (auto dest: arg_cong[where f=set])
  show ?thesis by (simp add: trimHyphens_def dropTrailing_def d r)
qed

lemma alnum_ascii: "list_all isAsciiAlnum s \<Longrightarrow> list_all (\<lambda>c. c < 128) s"
  by (induction s) (auto simp: isAsciiAlnum_def)

text \<open>
  The revision with the table does what claim C4 says: letters of the table and Latin
  letters and digits give a token of \<open>[a-z0-9]\<close> only, the lower-cased transliteration
  cut at 100 code units.
\<close>

lemma sanitizeBranchName_translit_cyrillic:
  assumes "asciiLowerCase B"
    and "list_all (\<lambda>c. isTranslitLetter c \<or> isAsciiAlnum c) name"
  shows "sanitizeBranchName_translit B name = take 100 (lowerBasic (transliterateToEnglish name))"
    and "list_all isLowerAlnum (sanitizeBranchName_translit B name)"
proof -
  have a: "list_all isAsciiAlnum (transliterateToEnglish name)"
    by (rule transliterate_alnum[OF assms(2)])
  have l: "toLowerCase B (transliterateToEnglish name) = lowerBasic (transliterateToEnglish name)"
    by (rule asciiLowerCase_apply[OF assms(1) alnum_ascii[OF a]])
  have la: "list_all isLowerAlnum (lowerBasic (transliterateToEnglish name))"
    by (rule lowerBasic_alnum[OF a])
  show e: "sanitizeBranchName_translit B name = take 100 (lowerBasic (transliterateToEnglish name))"
    unfolding sanitizeBranchName_translit_def l
    by (simp add: replaceRuns_alnum[OF la] trimHyphens_alnum[OF la])
  show "list_all isLowerAlnum (sanitizeBranchName_translit B name)"
    unfolding e using la by (auto simp: list_all_iff dest: in_set_takeD)
qed

text \<open>
  Claim C4 fails on \<open>sanitizeBranchName\<close> of \<open>src/mcp-server.ts\<close> and of the Data Center
  revision, which lower-case the name without transliterating it.  The Cyrillic word
  of four letters (code units 1097, 1091, 1082, 1072) followed by a space and the digit 7
  loses all its letters, where the revision with the table gives \<open>shchuka-7\<close>.
\<close>

theorem sanitizeBranchName_drops_cyrillic:
  "sanitizeBranchName exampleBuiltins [1097, 1091, 1082, 1072, 32, 55] = js ''7''
   \<and> sanitizeBranchName_translit exampleBuiltins [1097, 1091, 1082, 1072, 32, 55]
       = js ''shchuka-7''"
  by (simp add: sanitize_eval)

lemma branchRe_replicate: "branchRe b (replicate n 97 @ s) = branchRe (b \<or> 0 < n) s"
  by (induction n arbitrary: b) (auto simp: isLowerAlnum_def)

text \<open>
  Truncation comes after the trimming, so it can leave a hyphen at the end: 99 letters
  \<open>a\<close> followed by \<open>-b\<close> give 99 letters and a hyphen, which the regular expression
  does not match.
\<close>

lemma sanitizeBranchName_truncation_hyphen:
  "sanitizeBranchName exampleBuiltins (replicate 99 97 @ js ''-b'') = replicate 99 97 @ [45]
   \<and> \<not> matchesBranchRegex (sanitizeBranchName exampleBuiltins (replicate 99 97 @ js ''-b''))"
proof -
  let ?s = "replicate 99 97 @ [45, 98::nat]"
  have al: "list_all isLowerAlnum (replicate 99 97)"
    by (simp add: list_all_iff isLowerAlnum_def)
  have low: "toLowerCase exampleBuiltins (replicate 99 97 @ js ''-b'') = ?s"
    by (simp add: exampleBuiltins_def lowerBasic_def lowerUnit_def js_def)
  have rr: "\<And>xs ys. list_all isLowerAlnum xs \<Longrightarrow> replaceRuns False (xs @ ys) = xs @ replaceRuns False ys"
  proof -
    fix xs ys show "list_all isLowerAlnum xs \<Longrightarrow> replaceRuns False (xs @ ys) = xs @ replaceRuns False ys"
      by (induction xs) auto
  qed
  have r: "replaceRuns False ?s = ?s"
    by (simp add: rr[OF al] isLowerAlnum_def)
  have d: "dropWhile (\<lambda>c. c = 45) ?s = ?s"
    by (simp add: dropWhile_append3[where y=97] )
  have t: "trimHyphens ?s = ?s"
    unfolding trimHyphens_def d by (simp add: dropTrailing_def)
  have v: "sanitizeBranchName exampleBuiltins (replicate 99 97 @ js ''-b'') = replicate 99 97 @ [45]"
    unfolding sanitizeBranchName_def low r t by simp
  show ?thesis unfolding v matchesBranchRegex_def branchRe_replicate
    by (simp add: isLowerAlnum_def)
qed

end
